theory Spec2Isabelle
  imports Complex_Main
begin

section \<open>Colour arithmetic of the theme colour editor\<close>

text \<open>
  The embedding follows \<^verbatim>\<open>src/theme-color-editor.js\<close>.  JavaScript numbers are
  modelled by exact numbers (\<open>int\<close> for colour channels, \<open>real\<close> for everything that
  is divided or raised to a power); the rounding of IEEE doubles is not part of the
  model.  A colour is the three-element array the code builds everywhere
  (\<^verbatim>\<open>[r, g, b]\<close>), written as a triple.
\<close>

type_synonym rgb = "int \<times> int \<times> int"

text \<open>\<^verbatim>\<open>Math.round\<close>: the nearest integer, a tie going up.\<close>

definition Math_round :: "real \<Rightarrow> int" where
  "Math_round x = \<lfloor>x + 1 / 2\<rfloor>"

text \<open>The remainder operator \<^verbatim>\<open>%\<close>: the result has the sign of the dividend.\<close>

definition js_rem :: "real \<Rightarrow> real \<Rightarrow> real" where
  "js_rem x y = x - y * of_int (if x / y < 0 then \<lceil>x / y\<rceil> else \<lfloor>x / y\<rfloor>)"


definition hslToRgb :: "real \<times> real \<times> real \<Rightarrow> rgb" where
  "hslToRgb hsl = (case hsl of (h, s0, l0) \<Rightarrow>
     let s = s0 / 100; l = l0 / 100;
         f = (\<lambda>n. let k = js_rem (n + h / 30) 12
                   in Math_round ((l - s * min l (1 - l) * max (min (min (k - 3) (9 - k)) 1) (- 1)) * 255))
     in (f 0, f 8, f 4))"

text \<open>
  \<^verbatim>\<open>rgbToHsvSl\<close> returns the array
  \<^verbatim>\<open>[hue, saturation_hsv, value, saturation_hsl, lightness]\<close>, every entry rounded.
  The \<^verbatim>\<open>switch (max)\<close> tests \<^verbatim>\<open>min\<close>, \<^verbatim>\<open>r\<close>, \<^verbatim>\<open>g\<close>, \<^verbatim>\<open>b\<close> in this order.
\<close>

definition rgbToHsvSl :: "rgb \<Rightarrow> int \<times> int \<times> int \<times> int \<times> int" where
  "rgbToHsvSl c = (case c of (r0, g0, b0) \<Rightarrow>
     let r = real_of_int r0 / 255; g = real_of_int g0 / 255; b = real_of_int b0 / 255;
         mx = max (max r g) b;
         mn = min (min r g) b;
         d = mx - mn;
         s = (if mx = 0 then 0 else d / mx);
         v = mx;
         h = (if mx = mn then 0
              else if mx = r then js_rem (60 * (g - b) / d + 360) 360
              else if mx = g then js_rem (60 * (b - r) / d + 120) 360
              else js_rem (60 * (r - g) / d + 240) 360)
     in (Math_round h,
         Math_round (s * 100),
         Math_round (v * 100),
         Math_round (if mx = mn then 0 else 100 * d / (1 - \<bar>mx + mn - 1\<bar>)),
         Math_round ((mx + mn) * 50)))"




section \<open>Relative luminance and contrast\<close>

text \<open>
  \<^verbatim>\<open>relativeLuminance\<close> decodes each channel (linear below 0.03928, otherwise the
  power law with exponent 2.4) and weights the three results.
\<close>

definition linearChannel :: "real \<Rightarrow> real" where
  "linearChannel s = (if s < 0.03928 then s / 12.92 else ((s + 0.055) / 1.055) powr 2.4)"

definition relativeLuminance :: "rgb \<Rightarrow> real" where
  "relativeLuminance c = (case c of (r, g, b) \<Rightarrow>
     0.2126 * linearChannel (real_of_int r / 255)
     + 0.7152 * linearChannel (real_of_int g / 255)
     + 0.0722 * linearChannel (real_of_int b / 255))"

definition luminanceContrast :: "real \<Rightarrow> real \<Rightarrow> real" where
  "luminanceContrast relLum1 relLum2 =
     (if relLum1 > relLum2 then (relLum1 + 0.05) / (relLum2 + 0.05)
      else (relLum2 + 0.05) / (relLum1 + 0.05))"

text \<open>
  \<^verbatim>\<open>colorContrast\<close>: a missing colour (\<^verbatim>\<open>null\<close> or \<^verbatim>\<open>undefined\<close>) is \<open>None\<close>,
  and so is the result \<^verbatim>\<open>undefined\<close>.
\<close>

definition colorContrast :: "rgb option \<Rightarrow> rgb option \<Rightarrow> real option" where
  "colorContrast rgb1 rgb2 =
     (case rgb1 of None \<Rightarrow> None
      | Some c1 \<Rightarrow> (case rgb2 of None \<Rightarrow> None
          | Some c2 \<Rightarrow> Some (luminanceContrast (relativeLuminance c1) (relativeLuminance c2))))"

text \<open>The colours of the data model: no channel is negative.\<close>

definition channelsNonNegative :: "rgb \<Rightarrow> bool" where
  "channelsNonNegative c = (case c of (r, g, b) \<Rightarrow> 0 \<le> r \<and> 0 \<le> g \<and> 0 \<le> b)"

definition neededLuminanceForContrast :: "real \<Rightarrow> real \<Rightarrow> real \<times> real" where
  "neededLuminanceForContrast relLum neededContrast =
     (if neededContrast < 1 then (relLum, relLum)
      else ((relLum + 0.05) / neededContrast - 0.05, neededContrast * (relLum + 0.05) - 0.05))"

section \<open>Contrast repair\<close>

text \<open>
  \<^verbatim>\<open>setRelativeLuminance\<close> bisects the lightness between 0 and 100, keeping hue and
  HSL saturation of the given colour.  The first argument of the loop is the number of
  iterations left (\<^verbatim>\<open>20 - loopCounter\<close>); \<^verbatim>\<open>adjustedColor\<close> is \<^verbatim>\<open>undefined\<close>
  (\<open>None\<close>) until the first iteration has run.
\<close>

primrec setRelativeLuminance_loop ::
  "nat \<Rightarrow> real \<times> real \<times> real \<Rightarrow> real \<Rightarrow> real \<Rightarrow> real \<Rightarrow> real \<Rightarrow> rgb option \<Rightarrow> rgb option" where
  "setRelativeLuminance_loop 0 hsl relativeLuminanceTarget maxDifference minLightness maxLightness adjustedColor =
     adjustedColor"
| "setRelativeLuminance_loop (Suc n) hsl relativeLuminanceTarget maxDifference minLightness maxLightness adjustedColor =
     (let lightness = (minLightness + maxLightness) / 2;
          adjusted = hslToRgb (fst hsl, fst (snd hsl), lightness);
          diff = relativeLuminanceTarget - relativeLuminance adjusted
      in if \<bar>diff\<bar> < maxDifference then Some adjusted
         else if diff > 0
         then setRelativeLuminance_loop n hsl relativeLuminanceTarget maxDifference lightness maxLightness (Some adjusted)
         else setRelativeLuminance_loop n hsl relativeLuminanceTarget maxDifference minLightness lightness (Some adjusted))"

definition setRelativeLuminance :: "rgb \<Rightarrow> real \<Rightarrow> real \<Rightarrow> rgb option" where
  "setRelativeLuminance c relativeLuminanceTarget maxDifference =
     (case rgbToHsvSl c of (h, s, v, sl, l) \<Rightarrow>
        setRelativeLuminance_loop 20 (real_of_int h, real_of_int sl, real_of_int l)
          relativeLuminanceTarget maxDifference 0 100 None)"

text \<open>
  A contrast requirement (\<^verbatim>\<open>ContrastVariableInfo\<close>): the colour \<^verbatim>\<open>cv.variable.rgb\<close>
  of the other variable (\<open>None\<close> when it is missing) and \<^verbatim>\<open>cv.minContrast\<close>.
  \<^verbatim>\<open>varToAdjust\<close> is read through its \<^verbatim>\<open>rgb\<close> and its \<^verbatim>\<open>contrastVariables\<close>.
\<close>

record ContrastVariableInfo =
  variableRgb :: "rgb option"
  minContrast :: real

record VarToAdjust =
  adjustRgb :: "rgb option"
  contrastVariables :: "ContrastVariableInfo list option"

text \<open>Reading a channel of a missing colour raises a \<^verbatim>\<open>TypeError\<close>.\<close>

datatype js_error = TypeError

text \<open>
  The callback of the \<^verbatim>\<open>reduce\<close> in \<^verbatim>\<open>fixContrastWithLightness\<close>, for a link whose
  colour has the given luminance.  The accumulator is the blocked range (\<open>None\<close> for
  \<^verbatim>\<open>[undefined, undefined]\<close>) together with the running sum \<^verbatim>\<open>luminanceMean\<close>.
\<close>

definition blockLuminance ::
  "(real \<times> real) option \<times> real \<Rightarrow> real \<Rightarrow> real \<Rightarrow> (real \<times> real) option \<times> real" where
  "blockLuminance acc luminance neededContrast = (case acc of (blockedRange, luminanceMean) \<Rightarrow>
     let luminanceBlock = neededLuminanceForContrast luminance neededContrast
     in if fst luminanceBlock = snd luminanceBlock then (blockedRange, luminanceMean + luminance)
        else (case blockedRange of
                None \<Rightarrow> (Some luminanceBlock, luminanceMean + luminance)
              | Some (lo, hi) \<Rightarrow>
                  (Some (if lo > fst luminanceBlock then fst luminanceBlock else lo,
                         if hi < snd luminanceBlock then snd luminanceBlock else hi),
                   luminanceMean + luminance)))"

fun avoidLuminanceOf ::
  "(real \<times> real) option \<times> real \<Rightarrow> ContrastVariableInfo list
     \<Rightarrow> js_error + (real \<times> real) option \<times> real" where
  "avoidLuminanceOf acc [] = Inr acc"
| "avoidLuminanceOf acc (cv # cvs) =
     (case variableRgb cv of
        None \<Rightarrow> Inl TypeError
      | Some c \<Rightarrow> avoidLuminanceOf (blockLuminance acc (relativeLuminance c) (minContrast cv)) cvs)"

text \<open>
  What the function decides once the blocked range, the luminance of the colour to
  adjust and the mean luminance of the targets are known: return without a change, set
  one of the two extreme colours, or search a colour of a given luminance.
\<close>

datatype luminancePlan = KeepColor | UseExtreme rgb | SearchLuminance real

definition contrastPlan :: "real \<Rightarrow> real \<Rightarrow> (real \<times> real) option \<Rightarrow> luminancePlan" where
  "contrastPlan luminanceOfColorToAdjust luminanceMean avoidLuminance =
     (case avoidLuminance of
        None \<Rightarrow> KeepColor
      | Some (lo, hi) \<Rightarrow>
          if luminanceOfColorToAdjust \<le> lo \<or> luminanceOfColorToAdjust \<ge> hi then KeepColor
          else
            let avoid0 = max (lo - 0.005) 0;
                avoid1 = min (hi + 0.005) 1
            in if avoid0 < 0 \<and> avoid1 > 1
               then UseExtreme (if luminanceMean < 0.18 then (255, 255, 255) else (0, 0, 0))
               else if luminanceMean < 0.18
               then (if avoid1 \<le> 1 then SearchLuminance avoid1 else SearchLuminance avoid0)
               else (if avoid0 \<ge> 0 then SearchLuminance avoid0 else SearchLuminance avoid1))"

text \<open>
  The effect of \<^verbatim>\<open>fixContrastWithLightness\<close> on \<^verbatim>\<open>varToAdjust\<close>: no call at all, or
  the one call \<^verbatim>\<open>varToAdjust.setColor(c)\<close>.
\<close>

datatype contrastFix = Unchanged | SetColorTo "rgb option"

definition fixContrastWithLightness ::
  "VarToAdjust option \<Rightarrow> ContrastVariableInfo option \<Rightarrow> js_error + contrastFix" where
  "fixContrastWithLightness varToAdjust onlyToVar =
     (case varToAdjust of
        None \<Rightarrow> Inr Unchanged
      | Some v \<Rightarrow>
         (case (case onlyToVar of Some cv \<Rightarrow> Some [cv] | None \<Rightarrow> contrastVariables v) of
            None \<Rightarrow> Inr Unchanged
          | Some contrastToVariables \<Rightarrow>
              if length contrastToVariables = 0 then Inr Unchanged
              else
               (case avoidLuminanceOf (None, 0) contrastToVariables of
                  Inl e \<Rightarrow> Inl e
                | Inr (avoidLuminance, luminanceSum) \<Rightarrow>
                   (case adjustRgb v of
                      None \<Rightarrow> Inl TypeError
                    | Some c \<Rightarrow>
                       (case contrastPlan (relativeLuminance c)
                               (luminanceSum / real (length contrastToVariables)) avoidLuminance of
                          KeepColor \<Rightarrow> Inr Unchanged
                        | UseExtreme e \<Rightarrow> Inr (SetColorTo (Some e))
                        | SearchLuminance t \<Rightarrow> Inr (SetColorTo (setRelativeLuminance c t 0.005)))))))"

section \<open>Parsing colour literals\<close>

text \<open>
  Strings are lists of 8-bit characters.  The character classes of the regular
  expressions: \<^verbatim>\<open>\d\<close>, \<^verbatim>\<open>\s\<close> (tab, line feed, vertical tab, form feed, carriage
  return and space) and \<^verbatim>\<open>[\da-fA-F]\<close>.
\<close>

definition isDigit :: "char \<Rightarrow> bool" where
  "isDigit c = (c \<in> set ''0123456789'')"

definition isSpace :: "char \<Rightarrow> bool" where
  "isSpace c = (c \<in> {CHR 0x09, CHR 0x0A, CHR 0x0B, CHR 0x0C, CHR 0x0D, CHR '' ''})"

definition isHexDigit :: "char \<Rightarrow> bool" where
  "isHexDigit c = (c \<in> set ''0123456789abcdefABCDEF'')"

text \<open>The value of a hexadecimal digit, and of a digit string in base 10 and 16.\<close>

definition hexDigitValue :: "char \<Rightarrow> nat" where
  "hexDigitValue c =
     (if c \<in> set ''0123456789'' then of_char c - 48
      else if c \<in> set ''abcdef'' then of_char c - 87
      else of_char c - 55)"

definition decimalValue :: "string \<Rightarrow> nat" where
  "decimalValue ds = foldl (\<lambda>a c. 10 * a + hexDigitValue c) 0 ds"

definition hexValue :: "string \<Rightarrow> nat" where
  "hexValue ds = foldl (\<lambda>a c. 16 * a + hexDigitValue c) 0 ds"

text \<open>
  A channel of a parsed colour is a number or \<^verbatim>\<open>NaN\<close> (which \<^verbatim>\<open>parseFloat\<close> returns
  for a component without a digit).
\<close>

datatype channel = NaN | Num int

type_synonym parsedColor = "channel \<times> channel \<times> channel"

text \<open>
  \<^verbatim>\<open>hexToRgb\<close>: a string of three characters is doubled character by character, and
  the result has to be exactly six hexadecimal digits (\<^verbatim>\<open>/^([\da-fA-F]{6})$/\<close>).
\<close>

definition hexToRgb :: "string \<Rightarrow> parsedColor option" where
  "hexToRgb hexString0 =
     (if hexString0 = [] then None
      else
        let hexString = (if length hexString0 = 3
                         then concat (map (\<lambda>c. [c, c]) hexString0) else hexString0)
        in if \<not> (length hexString = 6 \<and> list_all isHexDigit hexString) then None
           else Some (Num (int (hexValue (take 2 hexString))),
                      Num (int (hexValue (take 2 (drop 2 hexString)))),
                      Num (int (hexValue (take 2 (drop 4 hexString))))))"

text \<open>
  The first pattern of \<^verbatim>\<open>rgbParenthesisToRgb\<close>,
  \<^verbatim>\<open>/(?:rgb\()?(\d+)[\s,]+(\d+)[\s,]+(\d+)\)?/\<close>, tried at the start of a string.  Each
  \<^verbatim>\<open>\d+\<close> and each \<^verbatim>\<open>[\s,]+\<close> is greedy and is followed by a character outside
  its class, so it consumes its whole run and the three groups are determined.  The
  optional \<^verbatim>\<open>rgb(\<close> is tried first.
\<close>

definition isSeparator :: "char \<Rightarrow> bool" where
  "isSeparator c = (isSpace c \<or> c = CHR '','')"

definition digitTripleAt :: "string \<Rightarrow> (string \<times> string \<times> string) option" where
  "digitTripleAt s =
     (let d1 = takeWhile isDigit s; s1 = dropWhile isDigit s;
          p1 = takeWhile isSeparator s1; s2 = dropWhile isSeparator s1;
          d2 = takeWhile isDigit s2; s3 = dropWhile isDigit s2;
          p2 = takeWhile isSeparator s3; s4 = dropWhile isSeparator s3;
          d3 = takeWhile isDigit s4
      in if d1 \<noteq> [] \<and> p1 \<noteq> [] \<and> d2 \<noteq> [] \<and> p2 \<noteq> [] \<and> d3 \<noteq> []
         then Some (d1, d2, d3) else None)"

definition rgbPatternAt :: "string \<Rightarrow> (string \<times> string \<times> string) option" where
  "rgbPatternAt s =
     (case (if take 4 s = ''rgb('' then digitTripleAt (drop 4 s) else None) of
        Some m \<Rightarrow> Some m
      | None \<Rightarrow> digitTripleAt s)"

text \<open>
  The second pattern,
  \<^verbatim>\<open>/color\(srgb\s+([\d\.]+)\s+([\d\.]+)\s+([\d\.]+)\)?/\<close>, at the start of a string.
\<close>

definition isDigitOrDot :: "char \<Rightarrow> bool" where
  "isDigitOrDot c = (isDigit c \<or> c = CHR ''.'')"

definition srgbPatternAt :: "string \<Rightarrow> (string \<times> string \<times> string) option" where
  "srgbPatternAt s =
     (if take 10 s \<noteq> ''color(srgb'' then None
      else
        let s0 = drop 10 s;
            w1 = takeWhile isSpace s0; s1 = dropWhile isSpace s0;
            c1 = takeWhile isDigitOrDot s1; s2 = dropWhile isDigitOrDot s1;
            w2 = takeWhile isSpace s2; s3 = dropWhile isSpace s2;
            c2 = takeWhile isDigitOrDot s3; s4 = dropWhile isDigitOrDot s3;
            w3 = takeWhile isSpace s4; s5 = dropWhile isSpace s4;
            c3 = takeWhile isDigitOrDot s5
        in if w1 \<noteq> [] \<and> c1 \<noteq> [] \<and> w2 \<noteq> [] \<and> c2 \<noteq> [] \<and> w3 \<noteq> [] \<and> c3 \<noteq> []
           then Some (c1, c2, c3) else None)"

text \<open>
  \<^verbatim>\<open>String.prototype.match\<close> without the \<^verbatim>\<open>g\<close> flag: the match at the leftmost
  position of the string where the pattern matches (the end of the string included).
\<close>

fun firstMatch :: "(string \<Rightarrow> 'a option) \<Rightarrow> string \<Rightarrow> 'a option" where
  "firstMatch pat [] = pat []"
| "firstMatch pat (c # cs) =
     (case pat (c # cs) of Some m \<Rightarrow> Some m | None \<Rightarrow> firstMatch pat cs)"

text \<open>
  \<^verbatim>\<open>parseFloat\<close> on a string of digits and dots: the longest prefix of the form
  digits, optionally a dot and digits; \<^verbatim>\<open>NaN\<close> (\<open>None\<close>) when that prefix has no
  digit.
\<close>

definition parseFloat :: "string \<Rightarrow> real option" where
  "parseFloat v =
     (let ip = takeWhile isDigit v; r = dropWhile isDigit v;
          fp = (case r of [] \<Rightarrow> [] | c # r' \<Rightarrow> if c = CHR ''.'' then takeWhile isDigit r' else [])
      in if ip = [] \<and> fp = [] then None
         else Some (real (decimalValue ip) + real (decimalValue fp) / 10 ^ length fp))"

definition srgbChannel :: "string \<Rightarrow> channel" where
  "srgbChannel v = (case parseFloat v of None \<Rightarrow> NaN | Some x \<Rightarrow> Num (Math_round (x * 255)))"

definition rgbParenthesisToRgb :: "string \<Rightarrow> parsedColor option" where
  "rgbParenthesisToRgb rgbString =
     (case firstMatch rgbPatternAt rgbString of
        Some (d1, d2, d3) \<Rightarrow>
          Some (Num (int (decimalValue d1)), Num (int (decimalValue d2)), Num (int (decimalValue d3)))
      | None \<Rightarrow>
         (case firstMatch srgbPatternAt rgbString of
            Some (c1, c2, c3) \<Rightarrow> Some (srgbChannel c1, srgbChannel c2, srgbChannel c3)
          | None \<Rightarrow> None))"

definition parseColor :: "string \<Rightarrow> parsedColor option" where
  "parseColor colorRepresentation =
     (case colorRepresentation of
        [] \<Rightarrow> None
      | c # cs \<Rightarrow> if c = CHR ''#'' then hexToRgb cs else rgbParenthesisToRgb colorRepresentation)"



section \<open>Colour variables and their dependency graph\<close>

text \<open>
  \<^verbatim>\<open>rgbEqual\<close> compares the first three channels with \<^verbatim>\<open>==\<close>; a missing colour equals
  only a missing colour, and \<^verbatim>\<open>NaN\<close> equals nothing.
\<close>

definition channelEq :: "channel \<Rightarrow> channel \<Rightarrow> bool" where
  "channelEq a b = (case a of NaN \<Rightarrow> False | Num x \<Rightarrow> (case b of NaN \<Rightarrow> False | Num y \<Rightarrow> x = y))"

definition rgbEqual :: "parsedColor option \<Rightarrow> parsedColor option \<Rightarrow> bool" where
  "rgbEqual rgb1 rgb2 =
     (case rgb1 of
        None \<Rightarrow> (case rgb2 of None \<Rightarrow> True | Some c2 \<Rightarrow> False)
      | Some (r1, g1, b1) \<Rightarrow>
         (case rgb2 of None \<Rightarrow> False
          | Some (r2, g2, b2) \<Rightarrow> channelEq r1 r2 \<and> channelEq g1 g2 \<and> channelEq b1 b2))"

text \<open>
  The class \<^verbatim>\<open>VariableInfo\<close>.  A field that is \<^verbatim>\<open>undefined\<close> or \<^verbatim>\<open>null\<close> is \<open>None\<close>.
  The arrays \<^verbatim>\<open>dependsOnVars\<close> and \<^verbatim>\<open>affectsVars\<close> hold references to other
  \<^verbatim>\<open>VariableInfo\<close> objects; the model holds their names, the keys of the map
  \<^verbatim>\<open>themeColorEditor.variableInfo\<close>.  \<^verbatim>\<open>useIndirectDefinition\<close> and the five options
  are the properties that \<^verbatim>\<open>addColorOptionControlAndBind\<close> defines on the object
  (their \<^verbatim>\<open>propValue\<close>).  \<^verbatim>\<open>isInCooldown\<close> and \<^verbatim>\<open>callAfterThrottle\<close> belong to the
  closure of \<^verbatim>\<open>colorChangedThrottled\<close>.
\<close>

record VariableInfo =
  name :: string
  currentValue :: "string option"
  rgb :: "parsedColor option"
  baseColor :: "parsedColor option"
  baseValue :: "string option"
  indirectDefinition :: "string option"
  useIndirectDefinition :: "bool option"
  saveExplicitRgbInOutput :: "bool option"
  optionInvert :: "bool option"
  optionHueRotate :: "real option"
  optionSaturationFactor :: "real option"
  optionLightnessFactor :: "real option"
  dependsOnVars :: "string list option"
  affectsVars :: "string list option"
  isInCooldown :: bool
  callAfterThrottle :: bool

text \<open>\<^verbatim>\<open>new VariableInfo(varName)\<close>.\<close>

definition newVariableInfo :: "string \<Rightarrow> VariableInfo" where
  "newVariableInfo varName =
     \<lparr>name = varName, currentValue = None, rgb = None, baseColor = None, baseValue = None,
      indirectDefinition = None, useIndirectDefinition = None, saveExplicitRgbInOutput = None,
      optionInvert = None, optionHueRotate = None, optionSaturationFactor = None,
      optionLightnessFactor = None, dependsOnVars = None, affectsVars = None,
      isInCooldown = False, callAfterThrottle = False\<rparr>"

text \<open>Truthiness of a flag and of a string.\<close>

definition isTrue :: "bool option \<Rightarrow> bool" where
  "isTrue b = (b = Some True)"

definition nonEmpty :: "string option \<Rightarrow> bool" where
  "nonEmpty s = (case s of None \<Rightarrow> False | Some t \<Rightarrow> t \<noteq> [])"

text \<open>\<^verbatim>\<open>valueShouldGoInOutput\<close>.\<close>

definition valueShouldGoInOutput :: "VariableInfo \<Rightarrow> bool" where
  "valueShouldGoInOutput v =
     ((isTrue (saveExplicitRgbInOutput v) \<or> \<not> isTrue (useIndirectDefinition v)
        \<or> \<not> nonEmpty (currentValue v) \<or> currentValue v \<noteq> baseValue v)
      \<and> \<not> rgbEqual (rgb v) (baseColor v))"

text \<open>
  The condition as the specification words it: the explicit-output flag, or not
  indirect, or a value different from the base value; and a colour different from the
  base colour.
\<close>

definition specifiedShouldGoInOutput :: "VariableInfo \<Rightarrow> bool" where
  "specifiedShouldGoInOutput v =
     ((isTrue (saveExplicitRgbInOutput v) \<or> \<not> isTrue (useIndirectDefinition v)
        \<or> currentValue v \<noteq> baseValue v)
      \<and> \<not> rgbEqual (rgb v) (baseColor v))"

text \<open>
  The editor: the map \<^verbatim>\<open>variableInfo\<close>, the number of times the computed style of a
  colour element has been read, and a log of the calls of \<^verbatim>\<open>colorChangedThrottled\<close>
  (kept only to state properties; the program has no such list).
\<close>

record editor =
  variableInfo :: "string \<Rightarrow> VariableInfo option"
  styleReads :: nat
  throttledCalls :: "string list"

definition updateVar :: "string \<Rightarrow> (VariableInfo \<Rightarrow> VariableInfo) \<Rightarrow> editor \<Rightarrow> editor" where
  "updateVar n f st =
     (case variableInfo st n of
        None \<Rightarrow> st
      | Some v \<Rightarrow> st\<lparr>variableInfo := (variableInfo st)(n \<mapsto> f v)\<rparr>)"

subsection \<open>The setter of \<^verbatim>\<open>dependsOnVars\<close>\<close>

text \<open>
  \<^verbatim>\<open>if (!sourceVar.affectsVars) sourceVar.affectsVars = [this];
  else if (!sourceVar.affectsVars.includes(this)) sourceVar.affectsVars.push(this);\<close>
\<close>

definition addAffects :: "string \<Rightarrow> editor \<Rightarrow> string \<Rightarrow> editor" where
  "addAffects self st sourceVar =
     updateVar sourceVar (\<lambda>sv.
       case affectsVars sv of
         None \<Rightarrow> sv\<lparr>affectsVars := Some [self]\<rparr>
       | Some as \<Rightarrow> if self \<in> set as then sv else sv\<lparr>affectsVars := Some (as @ [self])\<rparr>) st"

text \<open>\<^verbatim>\<open>v.affectsVars = v.affectsVars?.filter((sv) => sv != this);\<close>\<close>

definition removeAffects :: "string \<Rightarrow> editor \<Rightarrow> string \<Rightarrow> editor" where
  "removeAffects self st v =
     updateVar v (\<lambda>sv. sv\<lparr>affectsVars := map_option (filter (\<lambda>x. x \<noteq> self)) (affectsVars sv)\<rparr>) st"

definition set_dependsOnVars :: "string \<Rightarrow> string list option \<Rightarrow> editor \<Rightarrow> editor" where
  "set_dependsOnVars self v st =
     (case variableInfo st self of
        None \<Rightarrow> st
      | Some me \<Rightarrow>
         let removeDependsOnVars = dependsOnVars me;
             st1 = (case v of
                      None \<Rightarrow> updateVar self (\<lambda>x. x\<lparr>dependsOnVars := None\<rparr>) st
                    | Some vs \<Rightarrow>
                        foldl (addAffects self) (updateVar self (\<lambda>x. x\<lparr>dependsOnVars := Some vs\<rparr>) st) vs);
             removeDependsOnVars' =
               (case v of
                  None \<Rightarrow> removeDependsOnVars
                | Some vs \<Rightarrow> map_option (filter (\<lambda>x. x \<notin> set vs)) removeDependsOnVars)
         in (case removeDependsOnVars' of
               None \<Rightarrow> st1
             | Some rs \<Rightarrow> foldl (removeAffects self) st1 rs))"

subsection \<open>\<^verbatim>\<open>updateDependencyVariables\<close>\<close>

text \<open>
  The names that \<^verbatim>\<open>/(?<=var\()--[\w\-]+(?=\))/g\<close> finds: after each \<^verbatim>\<open>var(\<close>, two
  hyphens and the whole run of word characters and hyphens, when a closing parenthesis
  follows the run.  The search goes on behind a match, and one character further on
  when there is none.
\<close>

definition isNameChar :: "char \<Rightarrow> bool" where
  "isNameChar c = (c \<in> set ''abcdefghijklmnopqrstuvwxyzABCDEFGHIJKLMNOPQRSTUVWXYZ0123456789_-'')"

definition variableNameAt :: "string \<Rightarrow> string option" where
  "variableNameAt s =
     (if take 2 s = ''--'' \<and> takeWhile isNameChar (drop 2 s) \<noteq> []
         \<and> take 1 (dropWhile isNameChar (drop 2 s)) = '')''
      then Some (''--'' @ takeWhile isNameChar (drop 2 s)) else None)"

fun variableNameMatches :: "string \<Rightarrow> string list" where
  "variableNameMatches s =
     (if s = [] then []
      else if take 4 s = ''var('' then
        (case variableNameAt (drop 4 s) of
           Some vn \<Rightarrow> vn # variableNameMatches (drop (4 + length vn) s)
         | None \<Rightarrow> variableNameMatches (tl s))
      else variableNameMatches (tl s))"

declare variableNameMatches.simps [simp del]

definition updateDependencyVariables :: "string \<Rightarrow> editor \<Rightarrow> editor" where
  "updateDependencyVariables self st =
     (case variableInfo st self of
        None \<Rightarrow> st
      | Some me \<Rightarrow>
         if \<not> nonEmpty (indirectDefinition me) \<or> \<not> isTrue (useIndirectDefinition me)
         then set_dependsOnVars self None st
         else
           let variables = filter (\<lambda>vn. variableInfo st vn \<noteq> None)
                             (case indirectDefinition me of None \<Rightarrow> [] | Some d \<Rightarrow> variableNameMatches d)
           in set_dependsOnVars self (if length variables > 0 then Some variables else None) st)"

subsection \<open>\<^verbatim>\<open>getCalculatedColorRgb\<close>\<close>

text \<open>
  The colour functions on a parsed colour.  A channel that is \<^verbatim>\<open>NaN\<close> stays
  \<^verbatim>\<open>NaN\<close> under \<^verbatim>\<open>invertedColor\<close>, and makes every channel of \<^verbatim>\<open>adjustHsl\<close>
  \<^verbatim>\<open>NaN\<close>.
\<close>

definition invertedColor :: "parsedColor option \<Rightarrow> parsedColor option" where
  "invertedColor c = map_option (\<lambda>(r, g, b).
     let inv = (\<lambda>ch. case ch of NaN \<Rightarrow> NaN | Num x \<Rightarrow> Num (255 - x)) in (inv r, inv g, inv b)) c"

definition adjustHsl :: "parsedColor option \<Rightarrow> real option \<Rightarrow> real option \<Rightarrow> real option \<Rightarrow> parsedColor option" where
  "adjustHsl c hueRotate saturationFactor lightnessFactor =
     (case c of
        None \<Rightarrow> None
      | Some (Num r, Num g, Num b) \<Rightarrow>
         (case rgbToHsvSl (r, g, b) of (h, s, v, sl, l) \<Rightarrow>
            (case hslToRgb
                    (real_of_int h + (case hueRotate of None \<Rightarrow> 0 | Some d \<Rightarrow> d),
                     (case saturationFactor of None \<Rightarrow> real_of_int sl
                      | Some f \<Rightarrow> min 100 (max 0 (real_of_int sl * f))),
                     (case lightnessFactor of None \<Rightarrow> real_of_int l
                      | Some f \<Rightarrow> min 100 (max 0 (real_of_int l * f)))) of
               (r', g', b') \<Rightarrow> Some (Num r', Num g', Num b')))
      | Some other \<Rightarrow> Some (NaN, NaN, NaN))"

text \<open>
  The text that \<^verbatim>\<open>getComputedStyle(colorExplicitEl).backgroundColor\<close> returns is the
  browser's; \<open>computed\<close> stands for it.
\<close>

definition getCalculatedColorRgb :: "string \<Rightarrow> VariableInfo \<Rightarrow> parsedColor option" where
  "getCalculatedColorRgb computed me =
     (let computedRgb = parseColor computed
      in if \<not> isTrue (saveExplicitRgbInOutput me) then computedRgb
         else
           let computedRgb' = (if isTrue (optionInvert me) then invertedColor computedRgb else computedRgb)
           in if optionHueRotate me = None \<and> optionSaturationFactor me = None
                 \<and> optionLightnessFactor me = None
              then computedRgb'
              else adjustHsl computedRgb' (optionHueRotate me) (optionSaturationFactor me)
                     (optionLightnessFactor me))"

subsection \<open>The methods that call each other\<close>

text \<open>
  A step runs on the editor and either returns (\<open>True\<close>) or throws (\<open>False\<close>); what it
  has written before throwing stays written.
\<close>

type_synonym step = "editor \<Rightarrow> bool \<times> editor"

definition finish :: step where
  "finish = (\<lambda>st. (True, st))"

definition throwError :: step where
  "throwError = (\<lambda>st. (False, st))"

definition andThen :: "step \<Rightarrow> step \<Rightarrow> step" where
  "andThen a b = (\<lambda>st. case a st of (returned, st') \<Rightarrow> if returned then b st' else (False, st'))"

definition modify :: "(editor \<Rightarrow> editor) \<Rightarrow> step" where
  "modify f = (\<lambda>st. (True, f st))"

fun forEach :: "'a list \<Rightarrow> ('a \<Rightarrow> step) \<Rightarrow> step" where
  "forEach [] f = finish"
| "forEach (x # xs) f = andThen (f x) (forEach xs f)"

text \<open>\<^verbatim>\<open>String.prototype.includes\<close>.\<close>

fun stringIncludes :: "string \<Rightarrow> string \<Rightarrow> bool" where
  "stringIncludes [] sub = (sub = [])"
| "stringIncludes (c # cs) sub = (take (length sub) (c # cs) = sub \<or> stringIncludes cs sub)"

text \<open>
  The calls.  The properties other than \<^verbatim>\<open>useIndirectDefinition\<close> that
  \<^verbatim>\<open>addColorOptionControlAndBind\<close> binds are set with \<open>SetFlag\<close> (the two check boxes)
  and \<open>SetNumber\<close> (the three number inputs); \<open>NextPossibleCall\<close> is the timer of the
  throttle.
\<close>

datatype flagName = SaveExplicitRgbInOutput | OptionInvert

datatype numberName = OptionHueRotate | OptionSaturationFactor | OptionLightnessFactor

datatype call =
    SetValue string "string option" bool
  | SetColor string "parsedColor option" bool "bool option"
  | SetIndirectDefition string "string option" bool
  | SetUseIndirectDefinition string bool
  | SetFlag string flagName bool
  | SetNumber string numberName real
  | EnableIndirectDefinition string bool
  | ColorChangedThrottled string
  | ColorChanged string
  | UpdateAffectedColors string
  | UpdateValueFromAffectors string
  | NextPossibleCall string
  | ResetToBase string

definition getFlag :: "flagName \<Rightarrow> VariableInfo \<Rightarrow> bool option" where
  "getFlag p v = (case p of SaveExplicitRgbInOutput \<Rightarrow> saveExplicitRgbInOutput v
                  | OptionInvert \<Rightarrow> optionInvert v)"

definition putFlag :: "flagName \<Rightarrow> bool \<Rightarrow> VariableInfo \<Rightarrow> VariableInfo" where
  "putFlag p b v = (case p of SaveExplicitRgbInOutput \<Rightarrow> v\<lparr>saveExplicitRgbInOutput := Some b\<rparr>
                    | OptionInvert \<Rightarrow> v\<lparr>optionInvert := Some b\<rparr>)"

definition getNumber :: "numberName \<Rightarrow> VariableInfo \<Rightarrow> real option" where
  "getNumber p v = (case p of OptionHueRotate \<Rightarrow> optionHueRotate v
                    | OptionSaturationFactor \<Rightarrow> optionSaturationFactor v
                    | OptionLightnessFactor \<Rightarrow> optionLightnessFactor v)"

definition putNumber :: "numberName \<Rightarrow> real \<Rightarrow> VariableInfo \<Rightarrow> VariableInfo" where
  "putNumber p x v = (case p of OptionHueRotate \<Rightarrow> v\<lparr>optionHueRotate := Some x\<rparr>
                      | OptionSaturationFactor \<Rightarrow> v\<lparr>optionSaturationFactor := Some x\<rparr>
                      | OptionLightnessFactor \<Rightarrow> v\<lparr>optionLightnessFactor := Some x\<rparr>)"

text \<open>
  \<open>onVar self f\<close> runs \<open>f\<close> on the object of that name (a method is only ever called on
  an object of the map; on another name nothing happens, as with
  \<^verbatim>\<open>this.variableInfo.get(k)?.setValue(...)\<close>).
\<close>

definition onVar :: "string \<Rightarrow> (VariableInfo \<Rightarrow> step) \<Rightarrow> step" where
  "onVar self f = (\<lambda>st. case variableInfo st self of None \<Rightarrow> (True, st) | Some me \<Rightarrow> f me st)"

text \<open>
  \<open>exec browser fuel c\<close> runs the call \<open>c\<close>.  Every call uses one unit of \<open>fuel\<close>, the
  depth that is left on the call stack: with none left the call throws (the
  \<^verbatim>\<open>RangeError\<close> of a stack overflow).  \<open>browser k\<close> is the text of the \<open>k\<close>-th
  computed style that is read.  Writing to the page, to the controls and to the
  contrast indicators is not part of the model, and no variable is open in the colour
  picker.
\<close>

fun exec :: "(nat \<Rightarrow> string) \<Rightarrow> nat \<Rightarrow> call \<Rightarrow> step" where
  "exec browser 0 c = throwError"
| "exec browser (Suc n) (SetValue self val alsoSetAsBaseValue) =
     andThen
       (modify (updateVar self (\<lambda>me.
          if alsoSetAsBaseValue then me\<lparr>currentValue := val, baseValue := val\<rparr>
          else me\<lparr>currentValue := val\<rparr>)))
       (case (case val of
                None \<Rightarrow> None
              | Some s \<Rightarrow> if s \<noteq> [] \<and> \<not> stringIncludes s ''var'' then parseColor s else None) of
          Some parsedRgb \<Rightarrow> exec browser n (SetColor self (Some parsedRgb) alsoSetAsBaseValue (Some False))
        | None \<Rightarrow> exec browser n (SetIndirectDefition self val alsoSetAsBaseValue))"
| "exec browser (Suc n) (SetIndirectDefition self v alsoSetAsBase) =
     andThen
       (modify (updateVar self (\<lambda>me. me\<lparr>indirectDefinition := v\<rparr>)))
       (andThen
          (exec browser n (SetUseIndirectDefinition self (nonEmpty v)))
          (if nonEmpty v
           then onVar self (\<lambda>me st.
                  exec browser n
                    (SetColor self (getCalculatedColorRgb (browser (styleReads st)) me) alsoSetAsBase (Some True))
                    (st\<lparr>styleReads := Suc (styleReads st)\<rparr>))
           else finish))"
| "exec browser (Suc n) (SetUseIndirectDefinition self newValue) =
     onVar self (\<lambda>me.
       if useIndirectDefinition me = Some newValue then finish
       else
         andThen (modify (updateVar self (\<lambda>x. x\<lparr>useIndirectDefinition := Some newValue\<rparr>)))
           (andThen (exec browser n (EnableIndirectDefinition self newValue))
             (andThen (modify (updateDependencyVariables self))
               (onVar self (\<lambda>me'.
                  if isTrue (useIndirectDefinition me')
                  then exec browser n (UpdateValueFromAffectors self) else finish)))))"
| "exec browser (Suc n) (SetFlag self p newValue) =
     onVar self (\<lambda>me.
       if getFlag p me = Some newValue then finish
       else
         andThen (modify (updateVar self (putFlag p newValue)))
           (onVar self (\<lambda>me'.
              if isTrue (useIndirectDefinition me')
              then exec browser n (UpdateValueFromAffectors self) else finish)))"
| "exec browser (Suc n) (SetNumber self p newValue) =
     onVar self (\<lambda>me.
       if getNumber p me = Some newValue then finish
       else
         andThen (modify (updateVar self (putNumber p newValue)))
           (onVar self (\<lambda>me'.
              if isTrue (useIndirectDefinition me')
              then exec browser n (UpdateValueFromAffectors self) else finish)))"
| "exec browser (Suc n) (EnableIndirectDefinition self enable) =
     exec browser n (ColorChangedThrottled self)"
| "exec browser (Suc n) (ColorChangedThrottled self) =
     andThen (modify (\<lambda>st. st\<lparr>throttledCalls := throttledCalls st @ [self]\<rparr>))
       (onVar self (\<lambda>me.
          if isInCooldown me
          then modify (updateVar self (\<lambda>x. x\<lparr>callAfterThrottle := True\<rparr>))
          else andThen (exec browser n (ColorChanged self))
                 (modify (updateVar self (\<lambda>x. x\<lparr>isInCooldown := True, callAfterThrottle := False\<rparr>)))))"
| "exec browser (Suc n) (ColorChanged self) =
     exec browser n (UpdateAffectedColors self)"
| "exec browser (Suc n) (UpdateAffectedColors self) =
     onVar self (\<lambda>me.
       case affectsVars me of
         None \<Rightarrow> finish
       | Some vs \<Rightarrow> forEach vs (\<lambda>v. exec browser n (UpdateValueFromAffectors v)))"
| "exec browser (Suc n) (UpdateValueFromAffectors self) =
     onVar self (\<lambda>me st.
       if \<not> isTrue (useIndirectDefinition me) \<or> dependsOnVars me = None then (True, st)
       else exec browser n
              (SetColor self (getCalculatedColorRgb (browser (styleReads st)) me) False None)
              (st\<lparr>styleReads := Suc (styleReads st)\<rparr>))"
| "exec browser (Suc n) (SetColor self newRgb alsoSetAsBase useIndirect) =
     andThen
       (if alsoSetAsBase
        then (case newRgb of
                None \<Rightarrow> throwError
              | Some c \<Rightarrow> modify (updateVar self (\<lambda>me. me\<lparr>baseColor := Some c\<rparr>)))
        else finish)
       (andThen
          (case useIndirect of
             Some b \<Rightarrow> exec browser n (SetUseIndirectDefinition self b)
           | None \<Rightarrow> finish)
          (onVar self (\<lambda>me.
             if rgbEqual (rgb me) newRgb then finish
             else (case newRgb of
                     None \<Rightarrow> throwError
                   | Some c \<Rightarrow>
                       andThen (modify (updateVar self (\<lambda>x. x\<lparr>rgb := Some c\<rparr>)))
                         (exec browser n (ColorChangedThrottled self))))))"
| "exec browser (Suc n) (NextPossibleCall self) =
     onVar self (\<lambda>me.
       if \<not> isInCooldown me then finish
       else if callAfterThrottle me
       then andThen (modify (updateVar self (\<lambda>x. x\<lparr>callAfterThrottle := False\<rparr>)))
              (exec browser n (ColorChanged self))
       else modify (updateVar self (\<lambda>x. x\<lparr>isInCooldown := False\<rparr>)))"
| "exec browser (Suc n) (ResetToBase self) =
     onVar self (\<lambda>me. exec browser n (SetValue self (baseValue me) False))"

text \<open>
  Calls made one after the other by the event loop: a call that throws ends its own
  event only.
\<close>

fun execAll :: "(nat \<Rightarrow> string) \<Rightarrow> nat \<Rightarrow> call list \<Rightarrow> editor \<Rightarrow> editor" where
  "execAll browser fuel [] st = st"
| "execAll browser fuel (c # cs) st = execAll browser fuel cs (snd (exec browser fuel c st))"

text \<open>The editor right after the variable table has been read: one new object per name.\<close>

definition newEditor :: "string list \<Rightarrow> editor" where
  "newEditor names =
     \<lparr>variableInfo = (\<lambda>n. if n \<in> set names then Some (newVariableInfo n) else None),
      styleReads = 0, throttledCalls = []\<rparr>"

text \<open>
  The two relations as sets of names, and the invariant: they are inverse to each
  other over the whole graph.
\<close>

definition dependsOn :: "editor \<Rightarrow> string \<Rightarrow> string set" where
  "dependsOn st a =
     (case variableInfo st a of
        None \<Rightarrow> {}
      | Some v \<Rightarrow> (case dependsOnVars v of None \<Rightarrow> {} | Some ds \<Rightarrow> set ds))"

definition affects :: "editor \<Rightarrow> string \<Rightarrow> string set" where
  "affects st n =
     (case variableInfo st n of
        None \<Rightarrow> {}
      | Some v \<Rightarrow> (case affectsVars v of None \<Rightarrow> {} | Some as \<Rightarrow> set as))"

definition inverseLinks :: "editor \<Rightarrow> bool" where
  "inverseLinks st = (\<forall>a node. (node \<in> dependsOn st a) = (a \<in> affects st node))"

text \<open>A step keeps the invariant when it leads from a state with inverse relations to one.\<close>

definition keepsLinks :: "step \<Rightarrow> bool" where
  "keepsLinks f = (\<forall>st. inverseLinks st \<longrightarrow> inverseLinks (snd (f st)))"





section \<open>Export and import of the styles\<close>

text \<open>
  \<^verbatim>\<open>exportStyles\<close> with \<^verbatim>\<open>exportIncludeExplicitOptions\<close> switched on (the output "for
  saving theme definition").  \<open>numberToString\<close> stands for the conversion of a number
  to a string that \<^verbatim>\<open>'hueRotate: ' + v.optionHueRotate\<close> makes.
\<close>

fun joinWith :: "string \<Rightarrow> string list \<Rightarrow> string" where
  "joinWith sep [] = []"
| "joinWith sep [x] = x"
| "joinWith sep (x # y # ys) = x @ sep @ joinWith sep (y # ys)"

definition exportOptions :: "(real \<Rightarrow> string) \<Rightarrow> VariableInfo \<Rightarrow> string list" where
  "exportOptions numberToString v =
     (if isTrue (saveExplicitRgbInOutput v) then [''saveExplicitRgbInOutput: 1''] else [])
     @ (if optionInvert v \<noteq> None then [''invert: 1''] else [])
     @ (case optionHueRotate v of None \<Rightarrow> [] | Some x \<Rightarrow> [''hueRotate: '' @ numberToString x])
     @ (case optionSaturationFactor v of None \<Rightarrow> []
        | Some x \<Rightarrow> [''saturationFactor: '' @ numberToString x])
     @ (case optionLightnessFactor v of None \<Rightarrow> []
        | Some x \<Rightarrow> [''lightnessFactor: '' @ numberToString x])"

text \<open>The line for one variable, or \<open>None\<close> when the variable is skipped.\<close>

definition exportVariable :: "(real \<Rightarrow> string) \<Rightarrow> VariableInfo \<Rightarrow> string option" where
  "exportVariable numberToString v =
     (let options = exportOptions numberToString v;
          explicitDefinition = (if length options > 0 then Some (joinWith '', '' options) else None)
      in if \<not> nonEmpty explicitDefinition \<and> \<not> valueShouldGoInOutput v then None
         else Some (name v @ '': ''
                    @ (case currentValue v of None \<Rightarrow> ''undefined'' | Some t \<Rightarrow> t) @ '';''
                    @ (case explicitDefinition of
                         None \<Rightarrow> []
                       | Some d \<Rightarrow> if d = [] then [] else '' /* {'' @ d @ ''} */'')))"

definition exportStyles :: "(real \<Rightarrow> string) \<Rightarrow> VariableInfo list \<Rightarrow> string" where
  "exportStyles numberToString vars =
     (let varDefinitions = List.map_filter (exportVariable numberToString) vars
      in if length varDefinitions = 0
         then ''/* no variables where different from the base theme, nothing to export. */''
         else ''.theme-myThemeName {'' @ [CHR 0x0A] @ ''    ''
              @ joinWith ([CHR 0x0A] @ ''    '') varDefinitions @ [CHR 0x0A] @ ''}'' @ [CHR 0x0A])"

text \<open>
  The pattern of \<^verbatim>\<open>importStyles\<close>,
  \<^verbatim>\<open>/(--[\-\w]+)\s*:\s*([^;]+)\s*;(?:[ \t]*\/\*[ \t]*\{([^\}]+)\}[ \t]*\*\/)?/g\<close>, at the
  start of a string: the three groups and what is left of the string behind the match.
  The name is its whole run of characters.  The value runs up to the next semicolon;
  when only white space stands before that semicolon, the last white-space character
  is the value.  The comment is optional.
\<close>

definition isBlank :: "char \<Rightarrow> bool" where
  "isBlank c = (c = CHR '' '' \<or> c = CHR 0x09)"

definition optionCommentAt :: "string \<Rightarrow> (string \<times> string) option" where
  "optionCommentAt s =
     (let s1 = dropWhile isBlank s in
      if take 2 s1 \<noteq> ''/*'' then None
      else
        let s2 = dropWhile isBlank (drop 2 s1) in
        if take 1 s2 \<noteq> ''{'' then None
        else
          let g = takeWhile (\<lambda>c. c \<noteq> CHR ''}'') (drop 1 s2);
              s3 = dropWhile (\<lambda>c. c \<noteq> CHR ''}'') (drop 1 s2)
          in if g = [] \<or> s3 = [] then None
             else
               let s4 = dropWhile isBlank (drop 1 s3) in
               if take 2 s4 \<noteq> ''*/'' then None else Some (g, drop 2 s4))"

definition declarationAt :: "string \<Rightarrow> (string \<times> string \<times> string option \<times> string) option" where
  "declarationAt s =
     (if take 2 s \<noteq> ''--'' \<or> takeWhile isNameChar (drop 2 s) = [] then None
      else
        let varName = ''--'' @ takeWhile isNameChar (drop 2 s);
            s1 = dropWhile isSpace (dropWhile isNameChar (drop 2 s))
        in if take 1 s1 \<noteq> '':'' then None
           else
             let w = takeWhile isSpace (drop 1 s1);
                 s2 = dropWhile isSpace (drop 1 s1);
                 val = (if take 1 s2 = '';'' then (if w = [] then [] else [last w])
                        else takeWhile (\<lambda>c. c \<noteq> CHR '';'') s2);
                 s3 = dropWhile (\<lambda>c. c \<noteq> CHR '';'') s2
             in if val = [] \<or> s3 = [] then None
                else (case optionCommentAt (drop 1 s3) of
                        Some (g, s4) \<Rightarrow> Some (varName, val, Some g, s4)
                      | None \<Rightarrow> Some (varName, val, None, drop 1 s3)))"

text \<open>
  \<^verbatim>\<open>matchAll\<close>: the matches from left to right, each search starting behind the match
  before (and at least one character further on).
\<close>

fun allMatches :: "(string \<Rightarrow> ('a \<times> string) option) \<Rightarrow> string \<Rightarrow> 'a list" where
  "allMatches pat s =
     (if s = [] then []
      else (case pat s of
              Some (m, rest) \<Rightarrow> m # allMatches pat (drop (max 1 (length s - length rest)) s)
            | None \<Rightarrow> allMatches pat (tl s)))"

declare allMatches.simps [simp del]

definition declarations :: "string \<Rightarrow> (string \<times> string \<times> string option) list" where
  "declarations text =
     allMatches (\<lambda>s. case declarationAt s of
                        None \<Rightarrow> None
                      | Some (n, v, g, rest) \<Rightarrow> Some ((n, v, g), rest)) text"

text \<open>
  The pattern of the options,
  \<^verbatim>\<open>/(saveExplicitRgbInOutput|invert|hueRotate|saturationFactor|lightnessFactor) *: *(\d+(?:\.\d+)?)/g\<close>.
\<close>

definition optionKeys :: "string list" where
  "optionKeys = [''saveExplicitRgbInOutput'', ''invert'', ''hueRotate'', ''saturationFactor'',
                 ''lightnessFactor'']"

definition optionAt :: "string \<Rightarrow> ((string \<times> string) \<times> string) option" where
  "optionAt s =
     (case filter (\<lambda>k. take (length k) s = k) optionKeys of
        [] \<Rightarrow> None
      | k # ks \<Rightarrow>
         let s1 = dropWhile (\<lambda>c. c = CHR '' '') (drop (length k) s) in
         if take 1 s1 \<noteq> '':'' then None
         else
           let s2 = dropWhile (\<lambda>c. c = CHR '' '') (drop 1 s1);
               ip = takeWhile isDigit s2;
               s3 = dropWhile isDigit s2;
               fp = (if take 1 s3 = ''.'' then takeWhile isDigit (drop 1 s3) else [])
           in if ip = [] then None
              else if fp = [] then Some ((k, ip), s3)
              else Some ((k, ip @ ''.'' @ fp), dropWhile isDigit (drop 1 s3)))"

text \<open>
  The options read from a comment: the defaults, overwritten by every match in turn.
  \<^verbatim>\<open>!!optionMatch[2]\<close> is true for every match, the matched text not being empty.
\<close>

record importedOptions =
  impSaveExplicitRgbInOutput :: bool
  impInvert :: bool
  impHueRotate :: real
  impSaturationFactor :: real
  impLightnessFactor :: real

definition defaultOptions :: importedOptions where
  "defaultOptions = \<lparr>impSaveExplicitRgbInOutput = False, impInvert = False, impHueRotate = 0,
                      impSaturationFactor = 1, impLightnessFactor = 1\<rparr>"

definition numberOf :: "string \<Rightarrow> real" where
  "numberOf t = (case parseFloat t of None \<Rightarrow> 0 | Some x \<Rightarrow> x)"

definition applyOption :: "importedOptions \<Rightarrow> string \<times> string \<Rightarrow> importedOptions" where
  "applyOption options optionMatch = (case optionMatch of (k, t) \<Rightarrow>
     if k = ''saveExplicitRgbInOutput'' then options\<lparr>impSaveExplicitRgbInOutput := (t \<noteq> [])\<rparr>
     else if k = ''invert'' then options\<lparr>impInvert := (t \<noteq> [])\<rparr>
     else if k = ''hueRotate'' then options\<lparr>impHueRotate := numberOf t\<rparr>
     else if k = ''saturationFactor'' then options\<lparr>impSaturationFactor := numberOf t\<rparr>
     else if k = ''lightnessFactor'' then options\<lparr>impLightnessFactor := numberOf t\<rparr>
     else options)"

text \<open>
  The body of \<^verbatim>\<open>varMatches.forEach\<close> for one match, and \<^verbatim>\<open>importStyles\<close>: \<open>theme\<close> is
  the base theme of the chosen view (\<^verbatim>\<open>baseCss.get('view-light')\<close> or
  \<^verbatim>\<open>'view-dark'\<close>), which \<^verbatim>\<open>applyTheme\<close> sets first, as base values.
\<close>

definition importDeclaration ::
  "(nat \<Rightarrow> string) \<Rightarrow> nat \<Rightarrow> string \<times> string \<times> string option \<Rightarrow> step" where
  "importDeclaration browser fuel m = (case m of (varName, val, comment) \<Rightarrow>
     (\<lambda>st. case variableInfo st varName of
        None \<Rightarrow> (True, st)
      | Some varInfo \<Rightarrow>
         andThen (exec browser fuel (SetValue varName (Some val) False))
           (case comment of
              None \<Rightarrow> finish
            | Some g \<Rightarrow>
               let optionMatches = allMatches optionAt g in
               if length optionMatches > 0 then
                 let options = foldl applyOption defaultOptions optionMatches in
                 andThen (exec browser fuel (SetFlag varName SaveExplicitRgbInOutput (impSaveExplicitRgbInOutput options)))
                   (andThen (exec browser fuel (SetFlag varName OptionInvert (impInvert options)))
                     (andThen (exec browser fuel (SetNumber varName OptionHueRotate (impHueRotate options)))
                       (andThen (exec browser fuel (SetNumber varName OptionSaturationFactor (impSaturationFactor options)))
                         (exec browser fuel (SetNumber varName OptionLightnessFactor (impLightnessFactor options))))))
               else finish) st))"

definition applyTheme :: "(nat \<Rightarrow> string) \<Rightarrow> nat \<Rightarrow> (string \<times> string) list option \<Rightarrow> step" where
  "applyTheme browser fuel theme =
     (case theme of
        None \<Rightarrow> finish
      | Some rules \<Rightarrow>
         forEach rules (\<lambda>(k, v) st. if variableInfo st k = None then (True, st)
                                   else exec browser fuel (SetValue k (Some v) True) st))"

definition importStyles ::
  "(nat \<Rightarrow> string) \<Rightarrow> nat \<Rightarrow> (string \<times> string) list option \<Rightarrow> string \<Rightarrow> step" where
  "importStyles browser fuel theme text =
     (let varMatches = declarations text in
      if length varMatches = 0 then finish
      else andThen (applyTheme browser fuel theme)
             (forEach varMatches (importDeclaration browser fuel)))"

text \<open>The five option fields of a variable.\<close>

definition optionFields ::
  "VariableInfo \<Rightarrow> bool option \<times> bool option \<times> real option \<times> real option \<times> real option" where
  "optionFields v = (saveExplicitRgbInOutput v, optionInvert v, optionHueRotate v,
                     optionSaturationFactor v, optionLightnessFactor v)"

section \<open>Properties of the contrast ratio\<close>

lemma linearChannel_nonneg: "0 \<le> s \<Longrightarrow> 0 \<le> linearChannel s"
  by (simp add: linearChannel_def)

lemma relativeLuminance_nonneg:
  assumes "channelsNonNegative c"
  shows "0 \<le> relativeLuminance c"
proof -
  obtain r g b where c: "c = (r, g, b)" by (cases c) auto
  from assms c have "0 \<le> real_of_int r / 255" "0 \<le> real_of_int g / 255" "0 \<le> real_of_int b / 255"
    by (simp_all add: channelsNonNegative_def)
  then have "0 \<le> linearChannel (real_of_int r / 255)" "0 \<le> linearChannel (real_of_int g / 255)"
    "0 \<le> linearChannel (real_of_int b / 255)"
    by (simp_all only: linearChannel_nonneg)
  then show ?thesis
    unfolding c relativeLuminance_def by simp
qed

lemma luminanceContrast_max_min:
  "luminanceContrast a b = (max a b + 0.05) / (min a b + 0.05)"
  by (simp add: luminanceContrast_def max_def min_def)

lemma luminanceContrast_commute: "luminanceContrast a b = luminanceContrast b a"
  by (simp add: luminanceContrast_max_min max.commute min.commute)

lemma luminanceContrast_ge_one:
  assumes "0 \<le> a" "0 \<le> b"
  shows "1 \<le> luminanceContrast a b"
proof -
  have "0 < min a b + 0.05" using assms by (simp add: min_def)
  moreover have "min a b + 0.05 \<le> max a b + 0.05" by simp
  ultimately show ?thesis
    unfolding luminanceContrast_max_min by (simp add: le_divide_eq)
qed

text \<open>
  C10.  The contrast of two colours does not depend on their order, it is the larger
  luminance plus 0.05 divided by the smaller luminance plus 0.05, it is at least 1 for
  colours without a negative channel, and the result is \<^verbatim>\<open>undefined\<close> exactly when one
  of the two arguments is missing.
\<close>

theorem colorContrast_symmetric_at_least_one:
  "colorContrast rgb1 rgb2 = colorContrast rgb2 rgb1
   \<and> luminanceContrast l1 l2 = (max l1 l2 + 0.05) / (min l1 l2 + 0.05)
   \<and> (colorContrast rgb1 rgb2 = None \<longleftrightarrow> rgb1 = None \<or> rgb2 = None)
   \<and> (channelsNonNegative c1 \<and> channelsNonNegative c2 \<longrightarrow>
        (\<exists>q. colorContrast (Some c1) (Some c2) = Some q \<and> 1 \<le> q))"
proof (intro conjI impI)
  show "colorContrast rgb1 rgb2 = colorContrast rgb2 rgb1"
    by (cases rgb1; cases rgb2) (simp_all add: colorContrast_def luminanceContrast_commute)
  show "luminanceContrast l1 l2 = (max l1 l2 + 0.05) / (min l1 l2 + 0.05)"
    by (rule luminanceContrast_max_min)
  show "colorContrast rgb1 rgb2 = None \<longleftrightarrow> rgb1 = None \<or> rgb2 = None"
    by (cases rgb1; cases rgb2) (simp_all add: colorContrast_def)
next
  assume "channelsNonNegative c1 \<and> channelsNonNegative c2"
  then have "1 \<le> luminanceContrast (relativeLuminance c1) (relativeLuminance c2)"
    by (simp add: luminanceContrast_ge_one relativeLuminance_nonneg)
  then show "\<exists>q. colorContrast (Some c1) (Some c2) = Some q \<and> 1 \<le> q"
    by (simp add: colorContrast_def)
qed

lemma relativeLuminance_black: "relativeLuminance (0, 0, 0) = 0"
  by (simp add: relativeLuminance_def linearChannel_def)

lemma relativeLuminance_white: "relativeLuminance (255, 255, 255) = 1"
  by (simp add: relativeLuminance_def linearChannel_def)

theorem colorContrast_symmetric_at_least_one_witness:
  "channelsNonNegative (0, 0, 0) \<and> channelsNonNegative (255, 255, 255)
   \<and> colorContrast (Some (0, 0, 0)) (Some (255, 255, 255)) = Some 21
   \<and> colorContrast (Some (255, 255, 255)) (Some (0, 0, 0)) = Some 21"
  using colorContrast_symmetric_at_least_one
    [of "Some (0, 0, 0)" "Some (255, 255, 255)" 0 1 "(0, 0, 0)" "(255, 255, 255)"]
  by (simp add: channelsNonNegative_def colorContrast_def luminanceContrast_def
      relativeLuminance_black relativeLuminance_white)

section \<open>Bounds on the luminance of grey colours\<close>


lemma relativeLuminance_gray: "relativeLuminance (x, x, x) = linearChannel (real_of_int x / 255)"
  by (simp add: relativeLuminance_def algebra_simps)

lemma powr_12_5_lower:
  fixes a b :: real
  assumes "0 < a" "0 \<le> b" "b ^ 5 \<le> a ^ 12"
  shows "b \<le> a powr 2.4"
proof -
  have "a powr 2.4 = (a powr 12) powr (1 / 5)"
    by (simp add: powr_powr)
  also have "a powr 12 = a ^ 12"
    using assms(1) powr_realpow [of a 12] by simp
  finally have eq: "a powr 2.4 = (a ^ 12) powr (1 / 5)" .
  have "b = (b ^ 5) powr (1 / 5)"
  proof (cases "b = 0")
    case True then show ?thesis by simp
  next
    case False
    with assms(2) have "0 < b" by simp
    then have "b ^ 5 = b powr 5" using powr_realpow [of b 5] by simp
    then have "(b ^ 5) powr (1 / 5) = b powr (5 * (1 / 5))" by (simp only: powr_powr)
    then show ?thesis using \<open>0 < b\<close> by simp
  qed
  also have "\<dots> \<le> (a ^ 12) powr (1 / 5)"
    using assms by (intro powr_mono2) simp_all
  finally show ?thesis using eq by simp
qed

lemma linearChannel_lower:
  assumes "0.03928 \<le> s" "0 \<le> b" "b ^ 5 \<le> ((s + 0.055) / 1.055) ^ 12"
  shows "b \<le> linearChannel s"
proof -
  have "0 < (s + 0.055) / 1.055" using assms(1) by simp
  then have "b \<le> ((s + 0.055) / 1.055) powr 2.4"
    using assms(2,3) by (rule powr_12_5_lower)
  then show ?thesis using assms(1) by (simp add: linearChannel_def)
qed

lemma linearChannel_le_one:
  assumes "0 \<le> s" "s \<le> 1"
  shows "linearChannel s \<le> 1"
proof (cases "s < 0.03928")
  case True
  then show ?thesis using assms by (simp add: linearChannel_def)
next
  case False
  have "0 \<le> (s + 0.055) / 1.055" "(s + 0.055) / 1.055 \<le> 1" using assms by simp_all
  then have "((s + 0.055) / 1.055) powr 2.4 \<le> 1"
    by (intro powr_le1) simp_all
  then show ?thesis using False by (simp add: linearChannel_def)
qed

lemma lum128: "0.005 \<le> relativeLuminance (128, 128, 128)"
  unfolding relativeLuminance_gray by (rule linearChannel_lower) (simp_all add: field_simps)
lemma lum64: "0.005 \<le> relativeLuminance (64, 64, 64)"
  unfolding relativeLuminance_gray by (rule linearChannel_lower) (simp_all add: field_simps)
lemma lum32: "0.005 \<le> relativeLuminance (32, 32, 32)"
  unfolding relativeLuminance_gray by (rule linearChannel_lower) (simp_all add: field_simps)
lemma lum16: "0.005 \<le> relativeLuminance (16, 16, 16)"
  unfolding relativeLuminance_gray by (rule linearChannel_lower) (simp_all add: field_simps)
lemma lum8: "relativeLuminance (8, 8, 8) = 200 / 82365"
  unfolding relativeLuminance_gray by (simp add: linearChannel_def)
lemma lum128_le: "relativeLuminance (128, 128, 128) \<le> 1"
  unfolding relativeLuminance_gray by (rule linearChannel_le_one) simp_all

lemma loop_numeral:
  "setRelativeLuminance_loop (numeral k) hsl t d lo hi adj =
     setRelativeLuminance_loop (Suc (pred_numeral k)) hsl t d lo hi adj"
  by (simp only: numeral_eq_Suc)

lemma loop_down:
  assumes "hslToRgb (fst hsl, fst (snd hsl), (lo + hi) / 2) = c"
      and "0 < d" and "d \<le> relativeLuminance c - t"
  shows "setRelativeLuminance_loop (Suc n) hsl t d lo hi adj =
           setRelativeLuminance_loop n hsl t d lo ((lo + hi) / 2) (Some c)"
  using assms by (simp add: Let_def)

lemma loop_stop:
  assumes "hslToRgb (fst hsl, fst (snd hsl), (lo + hi) / 2) = c"
      and "\<bar>t - relativeLuminance c\<bar> < d"
  shows "setRelativeLuminance_loop (Suc n) hsl t d lo hi adj = Some c"
  using assms by (simp add: Let_def)

lemma hslToRgb_gray:
  "hslToRgb (h, 0, l) = (Math_round (l / 100 * 255), Math_round (l / 100 * 255), Math_round (l / 100 * 255))"
  unfolding hslToRgb_def Let_def prod.case by simp

lemma rgbToHsvSl_gray:
  "rgbToHsvSl (x, x, x) =
     (0, 0, Math_round (real_of_int x / 255 * 100), 0, Math_round (real_of_int x / 255 * 100))"
  unfolding rgbToHsvSl_def Let_def prod.case
  by (simp add: Math_round_def)

lemma setRelativeLuminance_gray_to_zero:
  "setRelativeLuminance (128, 128, 128) 0 0.005 = Some (8, 8, 8)"
proof -
  have hsl: "rgbToHsvSl (128, 128, 128) = (0, 0, 50, 0, 50)"
    by (simp add: rgbToHsvSl_gray Math_round_def)
  have s1: "setRelativeLuminance_loop 20 (0, 0, 50) 0 (1 / 200) 0 100 None
      = setRelativeLuminance_loop 19 (0, 0, 50) 0 (1 / 200) 0 50 (Some (128, 128, 128))"
    unfolding loop_numeral
    by (subst loop_down [where c = "(128, 128, 128)"])
       (use lum128 in \<open>simp_all add: hslToRgb_gray Math_round_def\<close>)
  have s2: "setRelativeLuminance_loop 19 (0, 0, 50) 0 (1 / 200) 0 50 (Some (128, 128, 128))
      = setRelativeLuminance_loop 18 (0, 0, 50) 0 (1 / 200) 0 25 (Some (64, 64, 64))"
    unfolding loop_numeral
    by (subst loop_down [where c = "(64, 64, 64)"])
       (use lum64 in \<open>simp_all add: hslToRgb_gray Math_round_def\<close>)
  have s3: "setRelativeLuminance_loop 18 (0, 0, 50) 0 (1 / 200) 0 25 (Some (64, 64, 64))
      = setRelativeLuminance_loop 17 (0, 0, 50) 0 (1 / 200) 0 (25 / 2) (Some (32, 32, 32))"
    unfolding loop_numeral
    by (subst loop_down [where c = "(32, 32, 32)"])
       (use lum32 in \<open>simp_all add: hslToRgb_gray Math_round_def\<close>)
  have s4: "setRelativeLuminance_loop 17 (0, 0, 50) 0 (1 / 200) 0 (25 / 2) (Some (32, 32, 32))
      = setRelativeLuminance_loop 16 (0, 0, 50) 0 (1 / 200) 0 (25 / 4) (Some (16, 16, 16))"
    unfolding loop_numeral
    by (subst loop_down [where c = "(16, 16, 16)"])
       (use lum16 in \<open>simp_all add: hslToRgb_gray Math_round_def\<close>)
  have s5: "setRelativeLuminance_loop 16 (0, 0, 50) 0 (1 / 200) 0 (25 / 4) (Some (16, 16, 16))
      = Some (8, 8, 8)"
    unfolding loop_numeral
    by (subst loop_stop [where c = "(8, 8, 8)"])
       (simp_all add: hslToRgb_gray Math_round_def lum8)
  show ?thesis
    unfolding setRelativeLuminance_def hsl by (simp add: s1 s2 s3 s4 s5)
qed


section \<open>Round trips through HSV and HSL\<close>








section \<open>Contrast repair: the colour that is already sufficient\<close>

lemma contrastPlan_outside:
  "lum \<le> lo \<or> hi \<le> lum \<Longrightarrow> contrastPlan lum mean (Some (lo, hi)) = KeepColor"
  by (auto simp: contrastPlan_def)

text \<open>
  C4.  When the luminance of the colour to adjust is at or below the lower bound of the
  blocked range, or at or above its upper bound, \<^verbatim>\<open>fixContrastWithLightness\<close> makes no
  call of \<^verbatim>\<open>setColor\<close>; the blocked range of a target of luminance 0.91 at contrast
  4.5 is \<open>[49/300, 4.27]\<close>, and for a luminance of 0.04 the colour is kept.
\<close>

theorem fixContrast_keeps_sufficient:
  "((case onlyToVar of Some cv \<Rightarrow> Some [cv] | None \<Rightarrow> contrastVariables v) = Some links
     \<and> avoidLuminanceOf (None, 0) links = Inr (Some (lo, hi), lumSum)
     \<and> adjustRgb v = Some c
     \<and> (relativeLuminance c \<le> lo \<or> hi \<le> relativeLuminance c)
    \<longrightarrow> fixContrastWithLightness (Some v) onlyToVar = Inr Unchanged)
   \<and> blockLuminance (None, 0) 0.91 4.5 = (Some (49 / 300, 427 / 100), 0.91)
   \<and> contrastPlan 0.04 0.91 (fst (blockLuminance (None, 0) 0.91 4.5)) = KeepColor"
proof (intro conjI impI)
  assume a: "(case onlyToVar of Some cv \<Rightarrow> Some [cv] | None \<Rightarrow> contrastVariables v) = Some links
     \<and> avoidLuminanceOf (None, 0) links = Inr (Some (lo, hi), lumSum)
     \<and> adjustRgb v = Some c
     \<and> (relativeLuminance c \<le> lo \<or> hi \<le> relativeLuminance c)"
  then have "contrastPlan (relativeLuminance c) (lumSum / real (length links)) (Some (lo, hi)) = KeepColor"
    by (simp add: contrastPlan_outside)
  with a show "fixContrastWithLightness (Some v) onlyToVar = Inr Unchanged"
    by (simp add: fixContrastWithLightness_def)
next
  show b: "blockLuminance (None, 0) 0.91 4.5 = (Some (49 / 300, 427 / 100), 0.91)"
    by (simp add: blockLuminance_def neededLuminanceForContrast_def)
  show "contrastPlan 0.04 0.91 (fst (blockLuminance (None, 0) 0.91 4.5)) = KeepColor"
    unfolding b by (simp add: contrastPlan_def)
qed

theorem fixContrast_keeps_sufficient_witness:
  "avoidLuminanceOf (None, 0) [\<lparr>variableRgb = Some (255, 255, 255), minContrast = 4.5\<rparr>]
      = Inr (Some (11 / 60, 187 / 40), 1)
   \<and> relativeLuminance (0, 0, 0) \<le> 11 / 60
   \<and> fixContrastWithLightness
        (Some \<lparr>adjustRgb = Some (0, 0, 0),
               contrastVariables = Some [\<lparr>variableRgb = Some (255, 255, 255), minContrast = 4.5\<rparr>]\<rparr>) None
      = Inr Unchanged"
proof -
  have a: "avoidLuminanceOf (None, 0) [\<lparr>variableRgb = Some (255, 255, 255), minContrast = 4.5\<rparr>]
      = Inr (Some (11 / 60, 187 / 40), 1)"
    by (simp add: relativeLuminance_white blockLuminance_def neededLuminanceForContrast_def)
  have b: "relativeLuminance (0, 0, 0) \<le> 11 / 60"
    by (simp add: relativeLuminance_black)
  from a b fixContrast_keeps_sufficient
    [where onlyToVar = None
       and v = "\<lparr>adjustRgb = Some (0, 0, 0),
               contrastVariables = Some [\<lparr>variableRgb = Some (255, 255, 255), minContrast = 4.5\<rparr>]\<rparr>"
       and links = "[\<lparr>variableRgb = Some (255, 255, 255), minContrast = 4.5\<rparr>]"
       and lo = "11 / 60" and hi = "187 / 40" and lumSum = 1 and c = "(0, 0, 0)"]
  show ?thesis by simp
qed

section \<open>Contrast repair: the range that blocks every luminance\<close>

lemma contrastPlan_never_extreme: "contrastPlan lum mean avoid \<noteq> UseExtreme e"
  by (auto simp: contrastPlan_def Let_def split: option.splits)

lemma fixContrast_search:
  assumes "contrastVariables v = Some links" and "links \<noteq> []"
      and "avoidLuminanceOf (None, 0) links = Inr (avoid, lumSum)"
      and "adjustRgb v = Some c"
      and "contrastPlan (relativeLuminance c) (lumSum / real (length links)) avoid = SearchLuminance t"
  shows "fixContrastWithLightness (Some v) None = Inr (SetColorTo (setRelativeLuminance c t 0.005))"
  using assms by (simp add: fixContrastWithLightness_def)

text \<open>
  C5.  The bounds are clamped to \<open>[0, 1]\<close> before the test
  \<^verbatim>\<open>avoidLuminance[0] < 0 && avoidLuminance[1] > 1\<close>, so the branch that sets pure
  black or white is never taken.  With the grey \<^verbatim>\<open>[128, 128, 128]\<close> to adjust against
  black and white at contrast 4.5 the blocked range is \<open>[-7/180, 4.675]\<close>, it covers
  every luminance, and the function sets \<^verbatim>\<open>[8, 8, 8]\<close>: the bisection towards
  luminance 0 stops as soon as the luminance is below the tolerance 0.005.
\<close>

theorem fixContrast_full_range_sets_dark_grey:
  "avoidLuminanceOf (None, 0)
      [\<lparr>variableRgb = Some (0, 0, 0), minContrast = 4.5\<rparr>,
       \<lparr>variableRgb = Some (255, 255, 255), minContrast = 4.5\<rparr>]
     = Inr (Some (- (7 / 180), 187 / 40), 1)
   \<and> fixContrastWithLightness
       (Some \<lparr>adjustRgb = Some (128, 128, 128),
              contrastVariables = Some
                [\<lparr>variableRgb = Some (0, 0, 0), minContrast = 4.5\<rparr>,
                 \<lparr>variableRgb = Some (255, 255, 255), minContrast = 4.5\<rparr>]\<rparr>) None
     = Inr (SetColorTo (Some (8, 8, 8)))"
proof -
  have a: "avoidLuminanceOf (None, 0)
      [\<lparr>variableRgb = Some (0, 0, 0), minContrast = 4.5\<rparr>,
       \<lparr>variableRgb = Some (255, 255, 255), minContrast = 4.5\<rparr>]
     = Inr (Some (- (7 / 180), 187 / 40), 1)"
    by (simp add: relativeLuminance_white relativeLuminance_black blockLuminance_def
        neededLuminanceForContrast_def)
  have p: "contrastPlan (relativeLuminance (128, 128, 128)) (1 / 2) (Some (- (7 / 180), 187 / 40))
      = SearchLuminance 0"
    using lum128 lum128_le by (simp add: contrastPlan_def)
  have "fixContrastWithLightness
       (Some \<lparr>adjustRgb = Some (128, 128, 128),
              contrastVariables = Some
                [\<lparr>variableRgb = Some (0, 0, 0), minContrast = 4.5\<rparr>,
                 \<lparr>variableRgb = Some (255, 255, 255), minContrast = 4.5\<rparr>]\<rparr>) None
     = Inr (SetColorTo (setRelativeLuminance (128, 128, 128) 0 0.005))"
    by (rule fixContrast_search [OF _ _ a]) (simp_all add: p)
  then show ?thesis
    by (simp only: a setRelativeLuminance_gray_to_zero simp_thms)
qed

section \<open>Properties of the colour parser\<close>




lemma hd_append_ne: "xs \<noteq> [] \<Longrightarrow> hd (xs @ ys) = hd xs"
  by simp

























section \<open>The dependency relations stay inverse to each other\<close>

lemma variableInfo_updateVar:
  "variableInfo (updateVar n f st) x =
     (if x = n then map_option f (variableInfo st n) else variableInfo st x)"
  by (cases "variableInfo st n") (simp_all add: updateVar_def)

lemma dependsOn_keep:
  assumes "\<And>v. dependsOnVars (f v) = dependsOnVars v"
  shows "dependsOn (updateVar n f st) a = dependsOn st a"
  using assms by (cases "variableInfo st n") (auto simp: dependsOn_def variableInfo_updateVar)

lemma affects_keep:
  assumes "\<And>v. affectsVars (f v) = affectsVars v"
  shows "affects (updateVar n f st) a = affects st a"
  using assms by (cases "variableInfo st n") (auto simp: affects_def variableInfo_updateVar)

lemma affects_addAffects:
  "affects (addAffects self st sourceVar) n =
     (if n = sourceVar \<and> variableInfo st n \<noteq> None then insert self (affects st n) else affects st n)"
  by (auto simp: affects_def addAffects_def variableInfo_updateVar split: option.splits)

lemma dependsOn_addAffects: "dependsOn (addAffects self st sourceVar) a = dependsOn st a"
  unfolding addAffects_def by (rule dependsOn_keep) (simp split: option.splits)

lemma defined_addAffects:
  "(variableInfo (addAffects self st sourceVar) n = None) = (variableInfo st n = None)"
  by (simp add: addAffects_def variableInfo_updateVar)

lemma affects_removeAffects:
  "affects (removeAffects self st v) n = (if n = v then affects st n - {self} else affects st n)"
  by (auto simp: affects_def removeAffects_def variableInfo_updateVar split: option.splits)

lemma dependsOn_removeAffects: "dependsOn (removeAffects self st v) a = dependsOn st a"
  unfolding removeAffects_def by (rule dependsOn_keep) simp

lemma fold_addAffects:
  "affects (foldl (addAffects self) st vs) n =
     (if n \<in> set vs \<and> variableInfo st n \<noteq> None then insert self (affects st n) else affects st n)
   \<and> dependsOn (foldl (addAffects self) st vs) a = dependsOn st a
   \<and> (variableInfo (foldl (addAffects self) st vs) n = None) = (variableInfo st n = None)"
proof (induction vs arbitrary: st)
  case Nil
  then show ?case by simp
next
  case (Cons v vs)
  show ?case
    by (simp add: Cons.IH affects_addAffects dependsOn_addAffects defined_addAffects)
qed

lemma fold_removeAffects:
  "affects (foldl (removeAffects self) st rs) n =
     (if n \<in> set rs then affects st n - {self} else affects st n)
   \<and> dependsOn (foldl (removeAffects self) st rs) a = dependsOn st a"
proof (induction rs arbitrary: st)
  case Nil
  then show ?case by simp
next
  case (Cons v vs)
  show ?case
    by (simp add: Cons.IH affects_removeAffects dependsOn_removeAffects)
qed

lemma dependsOn_set_field:
  "dependsOn (updateVar self (\<lambda>x. x\<lparr>dependsOnVars := d\<rparr>) st) a =
     (if a = self \<and> variableInfo st self \<noteq> None then (case d of None \<Rightarrow> {} | Some ds \<Rightarrow> set ds)
      else dependsOn st a)"
  by (auto simp: dependsOn_def variableInfo_updateVar split: option.splits)

lemma dependsOn_defined: "node \<in> dependsOn st a \<Longrightarrow> variableInfo st a \<noteq> None"
  by (auto simp: dependsOn_def split: option.splits)

lemma affects_defined: "a \<in> affects st node \<Longrightarrow> variableInfo st node \<noteq> None"
  by (auto simp: affects_def split: option.splits)

lemma set_dependsOnVars_links:
  assumes me: "variableInfo st self = Some me"
  shows "dependsOn (set_dependsOnVars self v st) a =
           (if a = self then (case v of None \<Rightarrow> {} | Some vs \<Rightarrow> set vs) else dependsOn st a)"
    and "affects (set_dependsOnVars self v st) n =
           (case v of
              None \<Rightarrow> (if n \<in> dependsOn st self then affects st n - {self} else affects st n)
            | Some vs \<Rightarrow>
               (if n \<in> set vs
                then (if variableInfo st n \<noteq> None then insert self (affects st n) else affects st n)
                else if n \<in> dependsOn st self then affects st n - {self} else affects st n))"
proof -
  have old: "dependsOn st self = (case dependsOnVars me of None \<Rightarrow> {} | Some ds \<Rightarrow> set ds)"
    using me by (simp add: dependsOn_def)
  show "dependsOn (set_dependsOnVars self v st) a =
           (if a = self then (case v of None \<Rightarrow> {} | Some vs \<Rightarrow> set vs) else dependsOn st a)"
    using me
    by (auto simp: set_dependsOnVars_def Let_def fold_removeAffects fold_addAffects
        dependsOn_set_field split: option.splits)
  show "affects (set_dependsOnVars self v st) n =
           (case v of
              None \<Rightarrow> (if n \<in> dependsOn st self then affects st n - {self} else affects st n)
            | Some vs \<Rightarrow>
               (if n \<in> set vs
                then (if variableInfo st n \<noteq> None then insert self (affects st n) else affects st n)
                else if n \<in> dependsOn st self then affects st n - {self} else affects st n))"
    using me old
    by (auto simp: set_dependsOnVars_def Let_def fold_removeAffects fold_addAffects
        affects_keep variableInfo_updateVar split: option.splits)
qed

lemma set_dependsOnVars_inverse:
  assumes inv: "inverseLinks st"
      and known: "\<And>vs x. v = Some vs \<Longrightarrow> x \<in> set vs \<Longrightarrow> variableInfo st x \<noteq> None"
  shows "inverseLinks (set_dependsOnVars self v st)"
proof (cases "variableInfo st self")
  case None
  then show ?thesis using inv by (simp add: set_dependsOnVars_def)
next
  case (Some me)
  note l = set_dependsOnVars_links [OF Some]
  from inv have i: "\<And>a node. (node \<in> dependsOn st a) = (a \<in> affects st node)"
    by (simp add: inverseLinks_def)
  show ?thesis
    unfolding inverseLinks_def
  proof (intro allI)
    fix a node
    show "(node \<in> dependsOn (set_dependsOnVars self v st) a) =
          (a \<in> affects (set_dependsOnVars self v st) node)"
    proof (cases "a = self")
      case True
      show ?thesis
      proof (cases v)
        case None
        have "self \<notin> affects st node \<or> node \<in> dependsOn st self" using i [of node self] by simp
        then show ?thesis unfolding l True None by auto
      next
        case (Some vs)
        have k: "node \<in> set vs \<Longrightarrow> variableInfo st node \<noteq> None" using known [OF Some] by simp
        have "self \<notin> affects st node \<or> node \<in> dependsOn st self" using i [of node self] by simp
        then show ?thesis unfolding l True Some using k by auto
      qed
    next
      case False
      have "(a \<in> affects (set_dependsOnVars self v st) node) = (a \<in> affects st node)"
        unfolding l using False by (cases v) auto
      then show ?thesis unfolding l(1) using False i [of node a] by simp
    qed
  qed
qed


lemma updateDependencyVariables_inverse:
  assumes "inverseLinks st"
  shows "inverseLinks (updateDependencyVariables self st)"
proof (cases "variableInfo st self")
  case None
  then show ?thesis using assms by (simp add: updateDependencyVariables_def)
next
  case (Some me)
  define xs where "xs = (case indirectDefinition me of None \<Rightarrow> [] | Some d \<Rightarrow> variableNameMatches d)"
  define variables where "variables = filter (\<lambda>vn. variableInfo st vn \<noteq> None) xs"
  have a: "inverseLinks (set_dependsOnVars self None st)"
    using assms by (rule set_dependsOnVars_inverse) simp
  have b: "inverseLinks (set_dependsOnVars self (Some variables) st)"
    using assms by (rule set_dependsOnVars_inverse) (auto simp: variables_def)
  have "updateDependencyVariables self st = set_dependsOnVars self None st
        \<or> updateDependencyVariables self st = set_dependsOnVars self (Some variables) st"
    unfolding updateDependencyVariables_def Some option.case Let_def xs_def [symmetric]
      variables_def [symmetric]
    by (cases "\<not> nonEmpty (indirectDefinition me) \<or> \<not> isTrue (useIndirectDefinition me)";
        cases "0 < length variables") (simp_all only: if_True if_False simp_thms)
  then show ?thesis using a b by (elim disjE) (simp_all only:)
qed

lemma inverseLinks_cong:
  assumes "variableInfo st' = variableInfo st"
  shows "inverseLinks st' = inverseLinks st"
  using assms by (simp add: inverseLinks_def dependsOn_def affects_def)

lemma inverseLinks_updateVar:
  assumes "\<And>v. dependsOnVars (f v) = dependsOnVars v" "\<And>v. affectsVars (f v) = affectsVars v"
  shows "inverseLinks (updateVar n f st) = inverseLinks st"
  using assms by (simp add: inverseLinks_def dependsOn_keep affects_keep)

lemma keeps_finish: "keepsLinks finish"
  by (simp add: keepsLinks_def finish_def)

lemma keeps_throwError: "keepsLinks throwError"
  by (simp add: keepsLinks_def throwError_def)

lemma keeps_andThen: "keepsLinks a \<Longrightarrow> keepsLinks b \<Longrightarrow> keepsLinks (andThen a b)"
  unfolding keepsLinks_def andThen_def
  by (auto split: prod.splits)

lemma keeps_modify: "(\<And>st. inverseLinks st \<Longrightarrow> inverseLinks (g st)) \<Longrightarrow> keepsLinks (modify g)"
  by (simp add: keepsLinks_def modify_def)

lemma keeps_modify_field:
  assumes "\<And>v. dependsOnVars (f v) = dependsOnVars v" "\<And>v. affectsVars (f v) = affectsVars v"
  shows "keepsLinks (modify (updateVar n f))"
  using assms by (intro keeps_modify) (simp add: inverseLinks_updateVar)

lemma keeps_onVar: "(\<And>me. keepsLinks (f me)) \<Longrightarrow> keepsLinks (onVar self f)"
  unfolding keepsLinks_def onVar_def by (auto split: option.splits)

lemma keeps_forEach: "(\<And>x. keepsLinks (f x)) \<Longrightarrow> keepsLinks (forEach xs f)"
  by (induction xs) (simp_all add: keeps_finish keeps_andThen)

lemma inverseLinks_styleReads: "inverseLinks (st\<lparr>styleReads := k\<rparr>) = inverseLinks st"
  by (rule inverseLinks_cong) simp

lemma inverseLinks_throttledCalls: "inverseLinks (st\<lparr>throttledCalls := k\<rparr>) = inverseLinks st"
  by (rule inverseLinks_cong) simp


lemma exec_keepsLinks: "keepsLinks (exec browser n c)"
proof (induction n arbitrary: c)
  case 0
  then show ?case by (simp add: keeps_throwError)
next
  case (Suc n)
  note ih = Suc.IH
  have upd: "\<And>self. keepsLinks (modify (updateDependencyVariables self))"
    by (intro keeps_modify) (rule updateDependencyVariables_inverse)
  have rd: "\<And>self g. (\<And>me st. keepsLinks (exec browser n (g me st))) \<Longrightarrow>
      keepsLinks (onVar self (\<lambda>me st. exec browser n (g me st) (st\<lparr>styleReads := Suc (styleReads st)\<rparr>)))"
    unfolding keepsLinks_def onVar_def by (auto split: option.splits simp: inverseLinks_styleReads)
  show ?case
  proof (cases c)
    case (SetValue self val b)
    show ?thesis
      unfolding SetValue exec.simps
      by (intro keeps_andThen keeps_modify_field) (simp_all add: ih split: option.splits)
  next
    case (SetColor self newRgb b flag)
    show ?thesis
      unfolding SetColor exec.simps
      by (intro keeps_andThen keeps_onVar)
         (auto intro!: keeps_andThen keeps_modify_field keeps_finish keeps_throwError ih
            split: option.splits)
  next
    case (SetIndirectDefition self v b)
    have "keepsLinks (onVar self (\<lambda>me st.
                  exec browser n
                    (SetColor self (getCalculatedColorRgb (browser (styleReads st)) me) b (Some True))
                    (st\<lparr>styleReads := Suc (styleReads st)\<rparr>)))"
      by (rule rd) (rule ih)
    then show ?thesis
      unfolding SetIndirectDefition exec.simps
      by (intro keeps_andThen keeps_modify_field) (simp_all add: ih keeps_finish)
  next
    case (SetUseIndirectDefinition self b)
    show ?thesis
      unfolding SetUseIndirectDefinition exec.simps
      by (intro keeps_onVar)
         (auto intro!: keeps_andThen keeps_modify_field keeps_onVar keeps_finish upd ih)
  next
    case (SetFlag self p b)
    show ?thesis
      unfolding SetFlag exec.simps
      by (intro keeps_onVar)
         (auto intro!: keeps_andThen keeps_modify_field keeps_onVar keeps_finish ih
            simp: putFlag_def split: flagName.splits)
  next
    case (SetNumber self p x)
    show ?thesis
      unfolding SetNumber exec.simps
      by (intro keeps_onVar)
         (auto intro!: keeps_andThen keeps_modify_field keeps_onVar keeps_finish ih
            simp: putNumber_def split: numberName.splits)
  next
    case (EnableIndirectDefinition self b)
    show ?thesis unfolding EnableIndirectDefinition exec.simps by (rule ih)
  next
    case (ColorChangedThrottled self)
    have "keepsLinks (modify (\<lambda>st. st\<lparr>throttledCalls := throttledCalls st @ [self]\<rparr>))"
      by (intro keeps_modify) (simp add: inverseLinks_throttledCalls)
    then show ?thesis
      unfolding ColorChangedThrottled exec.simps
      by (intro keeps_andThen keeps_onVar)
         (auto intro!: keeps_andThen keeps_modify_field ih)
  next
    case (ColorChanged self)
    show ?thesis unfolding ColorChanged exec.simps by (rule ih)
  next
    case (UpdateAffectedColors self)
    show ?thesis
      unfolding UpdateAffectedColors exec.simps
      by (intro keeps_onVar) (auto intro!: keeps_forEach keeps_finish ih split: option.splits)
  next
    case (UpdateValueFromAffectors self)
    have "keepsLinks (onVar self (\<lambda>me st.
       if \<not> isTrue (useIndirectDefinition me) \<or> dependsOnVars me = None then (True, st)
       else exec browser n
              (SetColor self (getCalculatedColorRgb (browser (styleReads st)) me) False None)
              (st\<lparr>styleReads := Suc (styleReads st)\<rparr>)))"
      using ih unfolding keepsLinks_def onVar_def
      by (auto split: option.splits simp: inverseLinks_styleReads)
    then show ?thesis unfolding UpdateValueFromAffectors exec.simps .
  next
    case (NextPossibleCall self)
    show ?thesis
      unfolding NextPossibleCall exec.simps
      by (intro keeps_onVar)
         (auto intro!: keeps_andThen keeps_modify_field keeps_finish ih)
  next
    case (ResetToBase self)
    show ?thesis
      unfolding ResetToBase exec.simps
      by (intro keeps_onVar ih)
  qed
qed

lemma execAll_inverse: "inverseLinks st \<Longrightarrow> inverseLinks (execAll browser fuel calls st)"
proof (induction calls arbitrary: st)
  case Nil
  then show ?case by simp
next
  case (Cons c cs)
  have "inverseLinks (snd (exec browser fuel c st))"
    using exec_keepsLinks [of browser fuel c] Cons.prems by (simp add: keepsLinks_def)
  then show ?case by (simp add: Cons.IH)
qed

lemma newEditor_inverse: "inverseLinks (newEditor names)"
  by (simp add: inverseLinks_def dependsOn_def affects_def newEditor_def newVariableInfo_def)

text \<open>
  C1.  Start from the editor with a new object for every name and make any calls, one
  after the other (\<^verbatim>\<open>setValue\<close> with any value, also the other calls of the model, with
  any answers of the browser and any depth of stack): afterwards a variable \<open>node\<close> is
  in \<open>a.dependsOnVars\<close> exactly when \<open>a\<close> is in \<open>node.affectsVars\<close>, for all names.
\<close>

theorem dependency_links_inverse:
  "inverseLinks (execAll browser fuel calls (newEditor names))"
  by (rule execAll_inverse) (rule newEditor_inverse)

text \<open>
  A run that adds a link and removes it again: \<^verbatim>\<open>--a\<close> is set to \<^verbatim>\<open>var(--b)\<close> and then
  to a literal.
\<close>

lemma setValue_adds_and_removes_links:
  "dependsOn (execAll (\<lambda>k. ''rgb(1, 2, 3)'') 20 [SetValue ''--a'' (Some ''var(--b)'') False]
      (newEditor [''--a'', ''--b''])) ''--a'' = {''--b''}
   \<and> affects (execAll (\<lambda>k. ''rgb(1, 2, 3)'') 20 [SetValue ''--a'' (Some ''var(--b)'') False]
      (newEditor [''--a'', ''--b''])) ''--b'' = {''--a''}
   \<and> dependsOn (execAll (\<lambda>k. ''rgb(1, 2, 3)'') 20
        [SetValue ''--a'' (Some ''var(--b)'') False, SetValue ''--a'' (Some ''#112233'') False]
      (newEditor [''--a'', ''--b''])) ''--a'' = {}
   \<and> affects (execAll (\<lambda>k. ''rgb(1, 2, 3)'') 20
        [SetValue ''--a'' (Some ''var(--b)'') False, SetValue ''--a'' (Some ''#112233'') False]
      (newEditor [''--a'', ''--b''])) ''--b'' = {}"
  by code_simp


section \<open>Which variables go into the output\<close>

lemma rgbEqual_None_right: "rgbEqual x None = (x = None)"
  by (cases x) (auto simp: rgbEqual_def)

text \<open>
  A variable that is indirect, whose colour differs from its base colour, and whose value
  and base value are both unset: the method says yes, the condition of the
  specification says no.
\<close>

theorem valueShouldGoInOutput_counterexample:
  "valueShouldGoInOutput
     ((newVariableInfo ''--a'')\<lparr>useIndirectDefinition := Some True, rgb := Some (Num 1, Num 2, Num 3)\<rparr>)
   \<and> \<not> specifiedShouldGoInOutput
     ((newVariableInfo ''--a'')\<lparr>useIndirectDefinition := Some True, rgb := Some (Num 1, Num 2, Num 3)\<rparr>)"
  by (simp add: valueShouldGoInOutput_def specifiedShouldGoInOutput_def newVariableInfo_def
      isTrue_def nonEmpty_def rgbEqual_def)

text \<open>
  C8 (as amended).  \<^verbatim>\<open>valueShouldGoInOutput\<close> is true exactly when the explicit-output
  flag is set, or the variable is not indirect, or its value is empty or unset, or its
  value differs from the base value, and in each case the colour differs from the base
  colour.  For a variable with a value that is not empty this is the condition of the
  specification, and a variable whose colour equals its base colour is never included.
\<close>

theorem valueShouldGoInOutput_condition:
  "valueShouldGoInOutput v =
     ((isTrue (saveExplicitRgbInOutput v) \<or> \<not> isTrue (useIndirectDefinition v)
        \<or> currentValue v = None \<or> currentValue v = Some [] \<or> currentValue v \<noteq> baseValue v)
      \<and> \<not> rgbEqual (rgb v) (baseColor v))
   \<and> (nonEmpty (currentValue v) \<longrightarrow> valueShouldGoInOutput v = specifiedShouldGoInOutput v)
   \<and> (rgbEqual (rgb v) (baseColor v) \<longrightarrow> \<not> valueShouldGoInOutput v)"
  by (cases "currentValue v")
     (auto simp: valueShouldGoInOutput_def specifiedShouldGoInOutput_def nonEmpty_def)

theorem valueShouldGoInOutput_condition_witness:
  "nonEmpty (currentValue ((newVariableInfo ''--a'')\<lparr>currentValue := Some ''#112233'',
       baseValue := Some ''#000000'', rgb := Some (Num 17, Num 34, Num 51),
       baseColor := Some (Num 0, Num 0, Num 0)\<rparr>))
   \<and> valueShouldGoInOutput ((newVariableInfo ''--a'')\<lparr>currentValue := Some ''#112233'',
       baseValue := Some ''#000000'', rgb := Some (Num 17, Num 34, Num 51),
       baseColor := Some (Num 0, Num 0, Num 0)\<rparr>)
   \<and> specifiedShouldGoInOutput ((newVariableInfo ''--a'')\<lparr>currentValue := Some ''#112233'',
       baseValue := Some ''#000000'', rgb := Some (Num 17, Num 34, Num 51),
       baseColor := Some (Num 0, Num 0, Num 0)\<rparr>)
   \<and> rgbEqual (rgb ((newVariableInfo ''--b'')\<lparr>saveExplicitRgbInOutput := Some True,
       rgb := Some (Num 1, Num 2, Num 3), baseColor := Some (Num 1, Num 2, Num 3)\<rparr>))
         (baseColor ((newVariableInfo ''--b'')\<lparr>saveExplicitRgbInOutput := Some True,
       rgb := Some (Num 1, Num 2, Num 3), baseColor := Some (Num 1, Num 2, Num 3)\<rparr>))
   \<and> \<not> valueShouldGoInOutput ((newVariableInfo ''--b'')\<lparr>saveExplicitRgbInOutput := Some True,
       rgb := Some (Num 1, Num 2, Num 3), baseColor := Some (Num 1, Num 2, Num 3)\<rparr>)"
  using valueShouldGoInOutput_condition [of "(newVariableInfo ''--a'')\<lparr>currentValue := Some ''#112233'',
       baseValue := Some ''#000000'', rgb := Some (Num 17, Num 34, Num 51),
       baseColor := Some (Num 0, Num 0, Num 0)\<rparr>"]
    valueShouldGoInOutput_condition [of "(newVariableInfo ''--b'')\<lparr>saveExplicitRgbInOutput := Some True,
       rgb := Some (Num 1, Num 2, Num 3), baseColor := Some (Num 1, Num 2, Num 3)\<rparr>"]
  by (simp add: newVariableInfo_def nonEmpty_def isTrue_def rgbEqual_def channelEq_def
      valueShouldGoInOutput_def specifiedShouldGoInOutput_def)

section \<open>Setting a colour that is already set\<close>


















lemma andThen_thrown: "a st = (False, st') \<Longrightarrow> andThen a b st = (False, st')"
  by (simp add: andThen_def)











section \<open>Export and import\<close>

text \<open>
  C7: export with the explicit options and import of the text exported do not restore
  the option \<open>optionInvert\<close>.  The variable \<^verbatim>\<open>--a\<close> has the value \<^verbatim>\<open>#112233\<close> and
  \<open>optionInvert = false\<close> (the check box "invert" not ticked), its other options not
  set.  \<^verbatim>\<open>exportStyles\<close> writes \<^verbatim>\<open>invert: 1\<close> for it, because it tests
  \<^verbatim>\<open>v.optionInvert !== undefined\<close>, and \<^verbatim>\<open>importStyles\<close>, into the editor that holds
  this variable, reads that back as \<open>optionInvert = true\<close>; the value is restored and
  the four other options get their neutral values.
\<close>

theorem export_import_inverts:
  "exportStyles numberToString
     [(newVariableInfo ''--a'')\<lparr>currentValue := Some ''#112233'',
        rgb := Some (Num 17, Num 34, Num 51), useIndirectDefinition := Some False,
        optionInvert := Some False\<rparr>]
   = ''.theme-myThemeName {'' @ [CHR 0x0A] @ ''    --a: #112233; /* {invert: 1} */''
       @ [CHR 0x0A] @ ''}'' @ [CHR 0x0A]
   \<and> fst (importStyles browser 20 None
       (''.theme-myThemeName {'' @ [CHR 0x0A] @ ''    --a: #112233; /* {invert: 1} */''
          @ [CHR 0x0A] @ ''}'' @ [CHR 0x0A])
       \<lparr>variableInfo = (\<lambda>n. None)(''--a'' \<mapsto> (newVariableInfo ''--a'')\<lparr>currentValue := Some ''#112233'',
          rgb := Some (Num 17, Num 34, Num 51), useIndirectDefinition := Some False,
          optionInvert := Some False\<rparr>), styleReads = 0, throttledCalls = []\<rparr>)
   \<and> map_option (\<lambda>v. (currentValue v, optionFields v))
       (variableInfo (snd (importStyles browser 20 None
         (''.theme-myThemeName {'' @ [CHR 0x0A] @ ''    --a: #112233; /* {invert: 1} */''
            @ [CHR 0x0A] @ ''}'' @ [CHR 0x0A])
         \<lparr>variableInfo = (\<lambda>n. None)(''--a'' \<mapsto> (newVariableInfo ''--a'')\<lparr>currentValue := Some ''#112233'',
            rgb := Some (Num 17, Num 34, Num 51), useIndirectDefinition := Some False,
            optionInvert := Some False\<rparr>), styleReads = 0, throttledCalls = []\<rparr>)) ''--a'')
     = Some (Some ''#112233'', Some False, Some True, Some 0, Some 1, Some 1)"
  by code_simp

end
